theory Spec2Isabelle
  imports Complex_Main "HOL-Library.AList" "HOL-Library.Sublist"
    "HOL-Library.List_Lexorder" "HOL-Library.Char_ord"
begin

section \<open>Python primitives used by the validator and the pricing engine\<close>

text \<open>
  Python's \<open>int\<close> is unbounded and is modelled by \<open>int\<close>. Python's \<open>float\<close> is
  idealised as an exact rational number (\<open>rat\<close>): every rate of the embedded
  configuration is a short decimal, and the arithmetic of the engine is carried out
  without binary rounding error. Accordingly \<open>round(x, 2)\<close> is the nearest multiple of
  0.01 of the exact value, ties to even, and \<open>int(x)\<close> truncates the exact value.
  \<open>str\<close> is a byte string. An exception is a value of type \<open>error\<close>: \<open>KeyError\<close> for
  a missing dictionary key read by subscript, \<open>ValidationError\<close> for a response model
  whose field constraint fails, \<open>OverflowError\<close> for an integer too large to convert to
  a float. The statements proved on amounts are those that binary floating point shares
  with exact arithmetic: which operations produce an amount, the order of amounts and
  their sign; an amount is given in figures only at the concrete orders of the witnesses.
\<close>

datatype error = KeyError | ValidationError | OverflowError

definition apos :: string where
  \<comment> \<open>the apostrophe, which a string literal cannot hold\<close>
  "apos = [CHR 0x27]"

definition digit_char :: "nat \<Rightarrow> char" where
  "digit_char d = ''0123456789'' ! d"

fun str_nat :: "nat \<Rightarrow> string" where
  "str_nat n =
     (if n < 10 then [digit_char n]
      else str_nat (n div 10) @ [digit_char (n mod 10)])"

declare str_nat.simps [simp del]

definition str_int :: "int \<Rightarrow> string" where
  \<comment> \<open>\<open>str(i)\<close>, also what an f-string \<open>{i}\<close> renders\<close>
  "str_int i = (if i < 0 then CHR ''-'' # str_nat (nat (- i)) else str_nat (nat i))"

fun group3 :: "string \<Rightarrow> string" where
  \<comment> \<open>commas between groups of three digits, counted from the left of a reversed numeral\<close>
  "group3 (a # b # c # d # rest) = a # b # c # CHR '','' # group3 (d # rest)"
| "group3 ds = ds"

definition str_int_commas :: "int \<Rightarrow> string" where
  \<comment> \<open>the format specification \<open>{i:,}\<close>\<close>
  "str_int_commas i =
     (if i < 0 then CHR ''-'' # rev (group3 (rev (str_nat (nat (- i)))))
      else rev (group3 (rev (str_nat (nat i)))))"

fun join :: "string \<Rightarrow> string list \<Rightarrow> string" where
  \<comment> \<open>\<open>sep.join(xs)\<close>\<close>
  "join sep [] = []"
| "join sep [x] = x"
| "join sep (x # y # ys) = x @ sep @ join sep (y # ys)"

definition endswith :: "string \<Rightarrow> string \<Rightarrow> bool" where
  "endswith s suf = (length suf \<le> length s \<and> drop (length s - length suf) s = suf)"

definition float_of_int_overflows :: "int \<Rightarrow> bool" where
  \<comment> \<open>\<open>x * n\<close> for a float \<open>x\<close> converts the integer \<open>n\<close> to a float first; the
      conversion raises \<open>OverflowError\<close> when \<open>n\<close> does not round to a finite double,
      that is from the midpoint between the largest double and \<open>2 ** 1024\<close> on\<close>
  "float_of_int_overflows n = (2 ^ 1024 - 2 ^ 970 \<le> \<bar>n\<bar>)"

definition py_int :: "rat \<Rightarrow> int" where
  \<comment> \<open>\<open>int(x)\<close> on a float truncates towards zero\<close>
  "py_int x = (if 0 \<le> x then \<lfloor>x\<rfloor> else \<lceil>x\<rceil>)"

definition round_half_even :: "rat \<Rightarrow> int" where
  "round_half_even y =
     (let f = \<lfloor>y\<rfloor>; d = y - of_int f
      in if d < 1 / 2 then f
         else if 1 / 2 < d then f + 1
         else if even f then f else f + 1)"

definition round2 :: "rat \<Rightarrow> rat" where
  \<comment> \<open>\<open>round(x, 2)\<close>: the nearest multiple of 0.01, ties to the even one\<close>
  "round2 x = of_int (round_half_even (x * 100)) / 100"

definition fmt_2f :: "rat \<Rightarrow> string" where
  \<comment> \<open>the format specification \<open>{x:.2f}\<close>\<close>
  "fmt_2f x =
     (let c = round_half_even (x * 100); a = nat \<bar>c\<bar>;
          frac = a mod 100;
          body = str_nat (a div 100) @ ''.'' @ [digit_char (frac div 10), digit_char (frac mod 10)]
      in if x < 0 then CHR ''-'' # body else body)"

definition dict_get :: "('k \<times> 'v) list \<Rightarrow> 'k \<Rightarrow> 'v \<Rightarrow> 'v" where
  \<comment> \<open>\<open>d.get(k, default)\<close>\<close>
  "dict_get d k dflt = (case map_of d k of None \<Rightarrow> dflt | Some v \<Rightarrow> v)"

definition or_empty :: "'a list option \<Rightarrow> 'a list" where
  \<comment> \<open>\<open>config.get(key, {})\<close> and \<open>config.get(key, [])\<close>: an absent table is empty\<close>
  "or_empty d = (case d of None \<Rightarrow> [] | Some t \<Rightarrow> t)"

definition sorted_desc :: "('a \<Rightarrow> int) \<Rightarrow> 'a list \<Rightarrow> 'a list" where
  \<comment> \<open>\<open>sorted(xs, key=f, reverse=True)\<close>: stable, equal keys keep their order\<close>
  "sorted_desc f xs = rev (sort_key f (rev xs))"

section \<open>Schemas (app/schemas/print\_specs.py)\<close>

datatype sides_t = Single | Double

datatype color_mode_t = Full_color | Black_white | Spot_color

fun color_mode_str :: "color_mode_t \<Rightarrow> string" where
  "color_mode_str Full_color = ''full_color''"
| "color_mode_str Black_white = ''black_white''"
| "color_mode_str Spot_color = ''spot_color''"

record PrintSpecs =
  product_type :: "string option"
  quantity :: "int option"
  size_str :: "string option"
  paper_stock :: "string option"
  sides :: "sides_t option"
  finish :: "string option"
  color_mode :: "color_mode_t option"
  options :: "string list"
  turnaround_days :: "int option"
  is_rush :: "bool option"
  artwork_dpi :: "int option"
  raw_input :: "string option"

definition quantity_constraint :: "PrintSpecs \<Rightarrow> bool" where
  \<comment> \<open>the constraint \<open>ge=1\<close> of the field \<open>quantity\<close>, which the validating constructor
      of \<open>PrintSpecs\<close> enforces; an absent quantity passes\<close>
  "quantity_constraint specs = (case quantity specs of None \<Rightarrow> True | Some q \<Rightarrow> 1 \<le> q)"

record ValidationResult =
  is_valid :: bool
  errors :: "string list"
  warnings :: "string list"
  missing_fields :: "string list"

datatype print_method_t = Digital | Offset

record PricingBreakdown =
  material_cost :: rat
  print_cost :: rat
  setup_cost :: rat
  finishing_cost :: rat
  option_costs :: "(string \<times> rat) list"
  rush_fee :: rat
  quantity_discount :: rat
  margin_amount :: rat
  margin_percent :: rat

record PriceEstimate =
  print_method :: print_method_t
  print_method_reason :: string
  breakdown :: PricingBreakdown
  subtotal :: rat
  tax :: rat
  total :: rat
  currency :: string
  estimate_notes :: "string list"

definition new_PricingBreakdown ::
  "rat \<Rightarrow> rat \<Rightarrow> rat \<Rightarrow> rat \<Rightarrow> (string \<times> rat) list \<Rightarrow> rat \<Rightarrow> rat \<Rightarrow> rat \<Rightarrow> rat
     \<Rightarrow> error + PricingBreakdown" where
  \<comment> \<open>the model constructor: the fields declared \<open>ge=0\<close> are validated\<close>
  "new_PricingBreakdown mc pc sc fc oc rf qd ma mp =
     (if mc < 0 \<or> pc < 0 \<or> sc < 0 \<or> fc < 0 \<or> ma < 0 \<or> mp < 0 then Inl ValidationError
      else Inr \<lparr>material_cost = mc, print_cost = pc, setup_cost = sc, finishing_cost = fc,
                option_costs = oc, rush_fee = rf, quantity_discount = qd,
                margin_amount = ma, margin_percent = mp\<rparr>)"

definition new_PriceEstimate ::
  "print_method_t \<Rightarrow> string \<Rightarrow> PricingBreakdown \<Rightarrow> rat \<Rightarrow> rat \<Rightarrow> rat \<Rightarrow> string
     \<Rightarrow> string list \<Rightarrow> error + PriceEstimate" where
  "new_PriceEstimate pm reason b st tx tot cur notes =
     (if st < 0 \<or> tot < 0 then Inl ValidationError
      else Inr \<lparr>print_method = pm, print_method_reason = reason, breakdown = b,
                subtotal = st, tax = tx, total = tot, currency = cur,
                estimate_notes = notes\<rparr>)"

section \<open>Pricing configuration (app/services/pricing.py)\<close>

text \<open>
  The configuration is the dictionary returned by \<open>load_pricing_config\<close>. A key read
  with \<open>.get(key, default)\<close> is an optional field, a key read by subscript is a field
  of the entry (the tables \<open>products\<close> and its entry \<open>default\<close> are looked up at run
  time and may be missing, which raises \<open>KeyError\<close>).
\<close>

record product_config =
  material_per_unit :: rat
  print_per_unit :: rat
  finishing_per_unit :: rat
  minimum_quantity :: int
  minimum_price :: "rat option"
  default_size :: string

record print_method_config =
  digital :: "(string \<times> rat) list option"
  offset :: "(string \<times> rat) list option"
  threshold_quantity :: "int option"

record option_config =
  price :: rat
  pricing_type :: string

record discount_tier =
  min_quantity :: int
  discount :: rat

record pricing_config =
  cfg_products :: "(string \<times> product_config) list option"
  cfg_print_method :: "print_method_config option"
  cfg_options :: "(string \<times> option_config) list option"
  cfg_modifiers :: "(string \<times> rat) list option"
  cfg_quantity_discounts :: "discount_tier list option"
  cfg_rush_pricing :: "(string \<times> rat) list option"
  cfg_margin_percent :: "rat option"
  cfg_tax_rate :: "rat option"

definition get_default_pricing_config :: pricing_config where
  "get_default_pricing_config =
     \<lparr>cfg_products = Some
        [(''business_cards'',
           \<lparr>material_per_unit = 0.02, print_per_unit = 0.04, finishing_per_unit = 0.02,
            minimum_quantity = 100, minimum_price = Some 29.99, default_size = ''3.5x2''\<rparr>),
         (''flyers'',
           \<lparr>material_per_unit = 0.03, print_per_unit = 0.08, finishing_per_unit = 0.02,
            minimum_quantity = 50, minimum_price = Some 35.00, default_size = ''8.5x11''\<rparr>),
         (''brochures'',
           \<lparr>material_per_unit = 0.08, print_per_unit = 0.15, finishing_per_unit = 0.05,
            minimum_quantity = 50, minimum_price = Some 75.00, default_size = ''8.5x11''\<rparr>),
         (''posters'',
           \<lparr>material_per_unit = 0.25, print_per_unit = 0.50, finishing_per_unit = 0.10,
            minimum_quantity = 1, minimum_price = Some 15.00, default_size = ''18x24''\<rparr>),
         (''postcards'',
           \<lparr>material_per_unit = 0.03, print_per_unit = 0.05, finishing_per_unit = 0.02,
            minimum_quantity = 100, minimum_price = Some 30.00, default_size = ''4x6''\<rparr>),
         (''default'',
           \<lparr>material_per_unit = 0.05, print_per_unit = 0.10, finishing_per_unit = 0.03,
            minimum_quantity = 1, minimum_price = Some 25.00, default_size = ''8.5x11''\<rparr>)],
      cfg_print_method = Some
        \<lparr>digital = Some [(''setup_cost'', 15.00), (''cost_multiplier'', 1.0),
                         (''max_efficient_quantity'', 500)],
         offset = Some [(''setup_cost'', 150.00), (''cost_multiplier'', 0.6),
                        (''min_efficient_quantity'', 500)],
         threshold_quantity = Some 500\<rparr>,
      cfg_options = Some
        [(''rounded_corners'', \<lparr>price = 15.00, pricing_type = ''flat''\<rparr>),
         (''foil_stamping'', \<lparr>price = 0.08, pricing_type = ''per_unit''\<rparr>),
         (''embossing'', \<lparr>price = 0.10, pricing_type = ''per_unit''\<rparr>),
         (''spot_uv'', \<lparr>price = 25.00, pricing_type = ''flat''\<rparr>),
         (''die_cut'', \<lparr>price = 75.00, pricing_type = ''flat''\<rparr>),
         (''lamination'', \<lparr>price = 0.03, pricing_type = ''per_unit''\<rparr>),
         (''uv_coating'', \<lparr>price = 0.02, pricing_type = ''per_unit''\<rparr>),
         (''hole_punch'', \<lparr>price = 10.00, pricing_type = ''flat''\<rparr>),
         (''scoring'', \<lparr>price = 0.01, pricing_type = ''per_unit''\<rparr>),
         (''perforation'', \<lparr>price = 0.02, pricing_type = ''per_unit''\<rparr>)],
      cfg_modifiers = Some
        [(''double_sided'', 1.6), (''full_color'', 1.0), (''black_white'', 0.5),
         (''spot_color'', 0.75), (''gloss_finish'', 1.1), (''matte_finish'', 1.0),
         (''satin_finish'', 1.05), (''uncoated'', 0.9)],
      cfg_quantity_discounts = Some
        [\<lparr>min_quantity = 250, discount = 0.05\<rparr>,
         \<lparr>min_quantity = 500, discount = 0.10\<rparr>,
         \<lparr>min_quantity = 1000, discount = 0.15\<rparr>,
         \<lparr>min_quantity = 5000, discount = 0.20\<rparr>,
         \<lparr>min_quantity = 10000, discount = 0.25\<rparr>],
      cfg_rush_pricing = Some
        [(''same_day'', 2.0), (''next_day'', 1.5), (''2_day'', 1.25), (''standard'', 1.0)],
      cfg_margin_percent = Some 0.30,
      cfg_tax_rate = Some 0.0\<rparr>"

section \<open>Print method decision\<close>

fun print_method_str :: "print_method_t \<Rightarrow> string" where
  "print_method_str Digital = ''digital''"
| "print_method_str Offset = ''offset''"

definition threshold_of :: "pricing_config \<Rightarrow> int" where
  \<comment> \<open>\<open>config.get("print_method", {}).get("threshold_quantity", 500)\<close>\<close>
  "threshold_of config =
     (case cfg_print_method config of None \<Rightarrow> 500
      | Some pm \<Rightarrow> (case threshold_quantity pm of None \<Rightarrow> 500 | Some t \<Rightarrow> t))"

definition determine_print_method :: "int \<Rightarrow> pricing_config \<Rightarrow> print_method_t \<times> string" where
  "determine_print_method qty config =
     (let threshold = threshold_of config
      in if qty < threshold then
           (Digital,
            ''Digital printing selected: quantity ('' @ str_int qty @ '') below ''
              @ str_int threshold @ '' threshold. ''
              @ ''Faster turnaround, no plate setup required.'')
         else
           (Offset,
            ''Offset printing selected: quantity ('' @ str_int qty @ '') at or above ''
              @ str_int threshold @ '' threshold. ''
              @ ''Lower per-unit cost at scale, requires plate setup.''))"

section \<open>Main pricing calculation\<close>

definition quantity_of :: "PrintSpecs \<Rightarrow> int" where
  \<comment> \<open>\<open>specs.quantity or 1\<close>: an absent quantity and the quantity 0 are both falsy\<close>
  "quantity_of specs = (case quantity specs of None \<Rightarrow> 1 | Some q \<Rightarrow> if q = 0 then 1 else q)"

definition product_config_of :: "pricing_config \<Rightarrow> PrintSpecs \<Rightarrow> error + product_config" where
  \<comment> \<open>\<open>config["products"].get(specs.product_type or "default", config["products"]["default"])\<close>;
      the default entry is evaluated before the lookup\<close>
  "product_config_of config specs =
     (let ptype = (case product_type specs of None \<Rightarrow> ''default''
                   | Some s \<Rightarrow> if s = [] then ''default'' else s)
      in case cfg_products config of None \<Rightarrow> Inl KeyError
         | Some products \<Rightarrow>
             (case map_of products ''default'' of None \<Rightarrow> Inl KeyError
              | Some dflt \<Rightarrow> Inr (dict_get products ptype dflt)))"

definition method_config_of :: "pricing_config \<Rightarrow> print_method_t \<Rightarrow> (string \<times> rat) list" where
  \<comment> \<open>\<open>config.get("print_method", {}).get(print_method, {})\<close>\<close>
  "method_config_of config pm =
     (case cfg_print_method config of None \<Rightarrow> []
      | Some pmc \<Rightarrow> or_empty (case pm of Digital \<Rightarrow> digital pmc | Offset \<Rightarrow> offset pmc))"

definition finish_modifier :: "(string \<times> rat) list \<Rightarrow> string \<Rightarrow> rat" where
  "finish_modifier modifiers f =
     (let finish_key = (if \<not> endswith f ''_finish'' then f @ ''_finish'' else f)
      in dict_get modifiers finish_key (dict_get modifiers f 1.0))"

definition apply_modifiers :: "pricing_config \<Rightarrow> PrintSpecs \<Rightarrow> rat \<times> string list" where
  \<comment> \<open>step 3: the combined modifier and the notes it appends\<close>
  "apply_modifiers config specs =
     (let modifiers = or_empty (cfg_modifiers config);
          modifier_total = 1.0;
          (modifier_total, notes) =
             (if sides specs = Some Double
              then (modifier_total * dict_get modifiers ''double_sided'' 1.6,
                    [''Double-sided printing applied''])
              else (modifier_total, []));
          modifier_total =
             (case color_mode specs of None \<Rightarrow> modifier_total
              | Some c \<Rightarrow> modifier_total * dict_get modifiers (color_mode_str c) 1.0);
          modifier_total =
             (case finish specs of None \<Rightarrow> modifier_total
              | Some f \<Rightarrow> if f = [] then modifier_total
                          else modifier_total * finish_modifier modifiers f)
      in (modifier_total, notes))"

fun option_loop ::
  "(string \<times> option_config) list \<Rightarrow> int \<Rightarrow> string list
     \<Rightarrow> (string \<times> rat) list \<times> string list \<Rightarrow> (string \<times> rat) list \<times> string list" where
  \<comment> \<open>step 4: the loop over \<open>specs.options\<close>, on the state (option\_costs, estimate\_notes)\<close>
  "option_loop options_config qty [] st = st"
| "option_loop options_config qty (opt # rest) (costs, notes) =
     (case map_of options_config opt of
        Some opt_config \<Rightarrow>
          (if pricing_type opt_config = ''flat''
           then option_loop options_config qty rest
                  (AList.update opt (price opt_config) costs, notes)
           else if pricing_type opt_config = ''per_unit''
           then option_loop options_config qty rest
                  (AList.update opt (price opt_config * of_int qty) costs, notes)
           else option_loop options_config qty rest (costs, notes))
      | None \<Rightarrow>
          option_loop options_config qty rest
            (costs, notes @ [''Option '' @ apos @ opt @ apos @ '' not in pricing catalog'']))"

definition find_discount_tier :: "pricing_config \<Rightarrow> int \<Rightarrow> discount_tier option" where
  \<comment> \<open>step 6: the first tier, by descending minimum quantity, that the quantity reaches\<close>
  "find_discount_tier config qty =
     find (\<lambda>tier. min_quantity tier \<le> qty)
       (sorted_desc min_quantity (or_empty (cfg_quantity_discounts config)))"

definition rush_triggered :: "PrintSpecs \<Rightarrow> bool" where
  "rush_triggered specs =
     (is_rush specs = Some True
      \<or> (case turnaround_days specs of None \<Rightarrow> False | Some d \<Rightarrow> d \<le> 2))"

definition rush_selection :: "pricing_config \<Rightarrow> PrintSpecs \<Rightarrow> rat \<times> string" where
  \<comment> \<open>step 7: (rush\_multiplier, rush\_type) inside the rush branch\<close>
  "rush_selection config specs =
     (let rush_config = or_empty (cfg_rush_pricing config)
      in if turnaround_days specs = Some 0 then (dict_get rush_config ''same_day'' 2.0, ''Same-day'')
         else if turnaround_days specs = Some 1 then (dict_get rush_config ''next_day'' 1.5, ''Next-day'')
         else if turnaround_days specs = Some 2 then (dict_get rush_config ''2_day'' 1.25, ''2-day'')
         else (dict_get rush_config ''next_day'' 1.5, ''Rush''))"

text \<open>
  The local variables of \<open>calculate_price\<close> just before the response is built, at full
  precision. \<open>v_rush_multiplier\<close> is \<open>None\<close> when the rush branch is not entered,
  \<open>v_computed_subtotal\<close> is \<open>subtotal\<close> before the minimum price is enforced and
  \<open>v_subtotal\<close> after it.
\<close>

record pricing_vars =
  v_quantity :: int
  v_print_method :: print_method_t
  v_method_reason :: string
  v_material_cost :: rat
  v_print_cost :: rat
  v_setup_cost :: rat
  v_finishing_cost :: rat
  v_option_costs :: "(string \<times> rat) list"
  v_pre_discount_total :: rat
  v_discount_rate :: rat
  v_quantity_discount :: rat
  v_rush_multiplier :: "rat option"
  v_rush_fee :: rat
  v_cost_subtotal :: rat
  v_margin_percent :: rat
  v_margin_amount :: rat
  v_computed_subtotal :: rat
  v_minimum_price :: rat
  v_subtotal :: rat
  v_tax :: rat
  v_total :: rat
  v_estimate_notes :: "string list"

definition price_vars :: "pricing_config \<Rightarrow> product_config \<Rightarrow> PrintSpecs \<Rightarrow> pricing_vars" where
  "price_vars config product_cfg specs =
     (let qty = quantity_of specs;
          (pmethod, method_reason) = determine_print_method qty config;
          method_config = method_config_of config pmethod;
          material = material_per_unit product_cfg * of_int qty;
          base_print_cost = print_per_unit product_cfg * of_int qty;
          print_multiplier = dict_get method_config ''cost_multiplier'' 1.0;
          printing = base_print_cost * print_multiplier;
          setup = dict_get method_config ''setup_cost'' 15.00;
          finishing = finishing_per_unit product_cfg * of_int qty;
          (modifier_total, notes) = apply_modifiers config specs;
          printing = printing * modifier_total;
          finishing = finishing * modifier_total;
          (opt_costs, notes) =
             option_loop (or_empty (cfg_options config)) qty (options specs) ([], notes);
          base_total = material + printing + setup + finishing;
          options_total = sum_list (map snd opt_costs);
          pre_discount_total = base_total + options_total;
          (discount_rate, qty_discount, notes) =
             (case find_discount_tier config qty of
                None \<Rightarrow> (0.0, 0.0, notes)
              | Some tier \<Rightarrow>
                  (discount tier, - pre_discount_total * discount tier,
                   notes @ [str_int (py_int (discount tier * 100)) @ ''% volume discount applied'']));
          (rush_multiplier, rush, notes) =
             (if rush_triggered specs then
                (let (m, rush_type) = rush_selection config specs
                 in (Some m, (pre_discount_total + qty_discount) * (m - 1),
                     notes @ [rush_type @ '' rush fee applied (''
                                @ str_int (py_int ((m - 1) * 100)) @ ''% surcharge)'']))
              else (None, 0.0, notes));
          margin_pct = (case cfg_margin_percent config of None \<Rightarrow> 0.30 | Some m \<Rightarrow> m);
          cost_subtotal = pre_discount_total + qty_discount + rush;
          margin = cost_subtotal * margin_pct;
          computed_subtotal = cost_subtotal + margin;
          min_price = (case minimum_price product_cfg of None \<Rightarrow> 25.00 | Some m \<Rightarrow> m);
          (sub_total, notes) =
             (if computed_subtotal < min_price
              then (min_price,
                    notes @ [''Minimum order price of $'' @ fmt_2f min_price @ '' applied''])
              else (computed_subtotal, notes));
          tax_rate = (case cfg_tax_rate config of None \<Rightarrow> 0.0 | Some t \<Rightarrow> t);
          tax_amount = sub_total * tax_rate;
          total_amount = sub_total + tax_amount
      in \<lparr>v_quantity = qty, v_print_method = pmethod, v_method_reason = method_reason,
          v_material_cost = material, v_print_cost = printing, v_setup_cost = setup,
          v_finishing_cost = finishing, v_option_costs = opt_costs,
          v_pre_discount_total = pre_discount_total, v_discount_rate = discount_rate,
          v_quantity_discount = qty_discount, v_rush_multiplier = rush_multiplier,
          v_rush_fee = rush, v_cost_subtotal = cost_subtotal, v_margin_percent = margin_pct,
          v_margin_amount = margin, v_computed_subtotal = computed_subtotal,
          v_minimum_price = min_price, v_subtotal = sub_total, v_tax = tax_amount,
          v_total = total_amount, v_estimate_notes = notes\<rparr>)"

definition build_response :: "pricing_vars \<Rightarrow> error + PriceEstimate" where
  \<comment> \<open>the response: currency amounts rounded to two decimals, both models validated\<close>
  "build_response v =
     (case new_PricingBreakdown
             (round2 (v_material_cost v)) (round2 (v_print_cost v)) (round2 (v_setup_cost v))
             (round2 (v_finishing_cost v)) (map (\<lambda>(k, c). (k, round2 c)) (v_option_costs v))
             (round2 (v_rush_fee v)) (round2 (v_quantity_discount v))
             (round2 (v_margin_amount v)) (v_margin_percent v * 100) of
        Inl e \<Rightarrow> Inl e
      | Inr b \<Rightarrow>
          new_PriceEstimate (v_print_method v) (v_method_reason v) b
            (round2 (v_subtotal v)) (round2 (v_tax v)) (round2 (v_total v)) ''USD''
            (v_estimate_notes v))"

definition calculate_price :: "pricing_config \<Rightarrow> PrintSpecs \<Rightarrow> error + PriceEstimate" where
  \<comment> \<open>the first argument is what \<open>load_pricing_config()\<close> returns; the first
      multiplication of a rate by the quantity, \<open>material_per_unit * quantity\<close>, raises
      when the quantity cannot be converted\<close>
  "calculate_price config specs =
     (case product_config_of config specs of
        Inl e \<Rightarrow> Inl e
      | Inr product_cfg \<Rightarrow>
          if float_of_int_overflows (quantity_of specs) then Inl OverflowError
          else build_response (price_vars config product_cfg specs))"

section \<open>Specification validation (app/services/validator.py)\<close>

definition VALID_PRODUCT_TYPES :: "string list" where
  "VALID_PRODUCT_TYPES =
     [''business_cards'', ''flyers'', ''posters'', ''brochures'', ''booklets'', ''stickers'',
      ''banners'', ''postcards'', ''letterhead'', ''envelopes'', ''folders'', ''notepads'',
      ''catalogs'', ''magazines'']"

definition VALID_OPTIONS :: "string list" where
  "VALID_OPTIONS =
     [''rounded_corners'', ''foil_stamping'', ''embossing'', ''spot_uv'', ''die_cut'',
      ''hole_punch'', ''scoring'', ''perforation'', ''lamination'', ''uv_coating'']"

record quantity_limit =
  min_limit :: int
  max_limit :: int

definition QUANTITY_LIMITS :: "(string \<times> quantity_limit) list" where
  "QUANTITY_LIMITS =
     [(''business_cards'', \<lparr>min_limit = 100, max_limit = 100000\<rparr>),
      (''flyers'', \<lparr>min_limit = 50, max_limit = 500000\<rparr>),
      (''posters'', \<lparr>min_limit = 1, max_limit = 10000\<rparr>),
      (''brochures'', \<lparr>min_limit = 50, max_limit = 100000\<rparr>),
      (''booklets'', \<lparr>min_limit = 25, max_limit = 50000\<rparr>),
      (''stickers'', \<lparr>min_limit = 50, max_limit = 500000\<rparr>),
      (''banners'', \<lparr>min_limit = 1, max_limit = 500\<rparr>),
      (''postcards'', \<lparr>min_limit = 100, max_limit = 500000\<rparr>),
      (''default'', \<lparr>min_limit = 1, max_limit = 100000\<rparr>)]"

definition STANDARD_SIZES :: "(string \<times> string list) list" where
  "STANDARD_SIZES =
     [(''business_cards'', [''3.5x2'', ''2x3.5'', ''3x3'']),
      (''flyers'', [''8.5x11'', ''5.5x8.5'', ''4x6'', ''11x17'']),
      (''posters'', [''11x17'', ''18x24'', ''24x36'']),
      (''postcards'', [''4x6'', ''5x7'', ''6x9''])]"

definition MIN_PRINT_DPI :: int where
  "MIN_PRINT_DPI = 300"

definition WARN_DPI_THRESHOLD :: int where
  "WARN_DPI_THRESHOLD = 200"

definition slow_options :: "string list" where
  "slow_options = [''foil_stamping'', ''embossing'', ''die_cut'']"

definition truthy :: "string option \<Rightarrow> bool" where
  \<comment> \<open>the truth value of an optional string: \<open>None\<close> and the empty string are falsy\<close>
  "truthy x = (case x of None \<Rightarrow> False | Some t \<Rightarrow> t \<noteq> [])"

definition str_opt :: "string option \<Rightarrow> string" where
  \<comment> \<open>an optional string inside an f-string\<close>
  "str_opt x = (case x of None \<Rightarrow> ''None'' | Some t \<Rightarrow> t)"

definition set_iter :: "(string \<Rightarrow> nat) \<Rightarrow> string list \<Rightarrow> string list" where
  \<comment> \<open>the elements of \<open>set(xs)\<close> in iteration order. The order of a set of strings
      follows their hashes, which change with the hash seed of the process: the
      position key \<open>h\<close> is a parameter\<close>
  "set_iter h xs = sort_key h (remdups xs)"

type_synonym findings = "string list \<times> string list \<times> string list"

definition check_product_type :: "PrintSpecs \<Rightarrow> findings" where
  "check_product_type specs =
     (if \<not> truthy (product_type specs) then
        ([''Product type is required. ''
            @ ''Examples: business_cards, flyers, posters, brochures''], [], [])
      else if the (product_type specs) \<notin> set VALID_PRODUCT_TYPES then
        ([''Unknown product type '' @ apos @ the (product_type specs) @ apos @ ''. ''
            @ ''Valid types: '' @ join '', '' (sort VALID_PRODUCT_TYPES)], [], [])
      else ([], [], []))"

definition check_quantity :: "PrintSpecs \<Rightarrow> findings" where
  "check_quantity specs =
     (case quantity specs of
        None \<Rightarrow> ([''Quantity is required''], [], [])
      | Some q \<Rightarrow>
          if q \<le> 0 then ([''Quantity must be a positive number''], [], [])
          else
            (let limits = dict_get QUANTITY_LIMITS
                            (if truthy (product_type specs) then the (product_type specs)
                             else ''default'')
                            (the (map_of QUANTITY_LIMITS ''default''))
             in if q < min_limit limits then
                  ([''Minimum quantity for '' @ str_opt (product_type specs) @ '' is ''
                      @ str_int (min_limit limits) @ '' units''], [], [])
                else if max_limit limits < q then
                  ([''Maximum quantity for '' @ str_opt (product_type specs) @ '' is ''
                      @ str_int_commas (max_limit limits) @ ''. ''
                      @ ''Contact sales for bulk orders.''], [], [])
                else ([], [], [])))"

definition check_size :: "PrintSpecs \<Rightarrow> findings" where
  "check_size specs =
     (if \<not> truthy (size_str specs) then
        ([], [''Size not specified - using standard size for product type''], [''size''])
      else if truthy (product_type specs)
              \<and> map_of STANDARD_SIZES (the (product_type specs)) \<noteq> None then
        (let standard = the (map_of STANDARD_SIZES (the (product_type specs)))
         in if the (size_str specs) \<notin> set standard then
              ([], [''Non-standard size '' @ apos @ the (size_str specs) @ apos @ '' for ''
                      @ the (product_type specs) @ ''. ''
                      @ ''Standard sizes: '' @ join '', '' standard
                      @ ''. Custom sizing may affect price.''], [])
            else ([], [], []))
      else ([], [], []))"

definition check_artwork_dpi :: "PrintSpecs \<Rightarrow> findings" where
  "check_artwork_dpi specs =
     (case artwork_dpi specs of
        None \<Rightarrow> ([], [], [])
      | Some dpi \<Rightarrow>
          if dpi < WARN_DPI_THRESHOLD then
            ([''Artwork resolution too low ('' @ str_int dpi @ '' DPI). ''
                @ ''Minimum '' @ str_int MIN_PRINT_DPI @ '' DPI required for print quality. ''
                @ ''Please provide higher resolution artwork.''], [], [])
          else if dpi < MIN_PRINT_DPI then
            ([], [''Artwork resolution ('' @ str_int dpi @ '' DPI) is below recommended ''
                    @ str_int MIN_PRINT_DPI @ '' DPI. Print quality may be affected.''], [])
          else ([], [], []))"

definition conflicting_options :: "(string \<Rightarrow> nat) \<Rightarrow> PrintSpecs \<Rightarrow> string list" where
  \<comment> \<open>\<open>set(specs.options) & slow_options\<close>, in iteration order\<close>
  "conflicting_options h specs =
     set_iter h (filter (\<lambda>opt. opt \<in> set slow_options) (options specs))"

definition check_turnaround :: "(string \<Rightarrow> nat) \<Rightarrow> PrintSpecs \<Rightarrow> findings" where
  "check_turnaround h specs =
     (case turnaround_days specs of
        None \<Rightarrow> ([], [], [])
      | Some d \<Rightarrow>
          (let (errs, warns) =
                 (if d < 0 then ([''Turnaround days cannot be negative''], [])
                  else if d = 0 then
                    ([], [''Same-day turnaround requested. ''
                            @ ''Subject to availability and rush fees apply.''])
                  else if d \<le> 2 then
                    ([], [str_int d @ ''-day rush turnaround. Rush fees will apply.''])
                  else ([], []));
               conflicting = conflicting_options h specs
           in if d \<le> 2 \<and> options specs \<noteq> [] \<and> conflicting \<noteq> [] then
                (errs @ [''Rush turnaround conflicts with options: ''
                           @ join '', '' conflicting @ ''. ''
                           @ ''These options require 5+ business days.''], warns, [])
              else (errs, warns, [])))"

definition check_options :: "PrintSpecs \<Rightarrow> findings" where
  "check_options specs =
     (if options specs \<noteq> [] then
        (let unknown_options =
               remdups (filter (\<lambda>opt. opt \<notin> set VALID_OPTIONS) (options specs));
             w1 = (if unknown_options \<noteq> [] then
                     [''Unknown options will be ignored: '' @ join '', '' (sort unknown_options)]
                   else []);
             w2 = (if ''embossing'' \<in> set (options specs) \<and> ''lamination'' \<in> set (options specs)
                   then [''Embossing and lamination together may affect emboss visibility'']
                   else [])
         in ([], w1 @ w2, []))
      else ([], [], []))"

definition check_missing_optional :: "PrintSpecs \<Rightarrow> findings" where
  "check_missing_optional specs =
     (let (w1, m1) = (if sides specs = None
                      then ([''Sides not specified - defaulting to single-sided''], [''sides''])
                      else ([], []));
          (w2, m2) = (if \<not> truthy (finish specs)
                      then ([''Finish not specified - defaulting to matte''], [''finish''])
                      else ([], []));
          (w3, m3) = (if color_mode specs = None
                      then ([''Color mode not specified - assuming full color''], [''color_mode''])
                      else ([], []));
          m4 = (if \<not> truthy (paper_stock specs) then [''paper_stock''] else [])
      in ([], w1 @ w2 @ w3, m1 @ m2 @ m3 @ m4))"

definition check_business_rules :: "PrintSpecs \<Rightarrow> findings" where
  "check_business_rules specs =
     (let w1 = (case quantity specs of
                  None \<Rightarrow> []
                | Some q \<Rightarrow>
                    if q \<noteq> 0 \<and> 5000 \<le> q then
                      [''Large order: may qualify for additional volume discounts. ''
                         @ ''Contact sales for custom quote.'']
                    else []);
          w2 = (if options specs \<noteq> []
                   \<and> (''foil_stamping'' \<in> set (options specs) \<or> ''embossing'' \<in> set (options specs))
                then [''Specialty finishes (foil/emboss) add 5-7 business days to production'']
                else [])
      in ([], w1 @ w2, []))"

definition add_findings :: "findings \<Rightarrow> findings \<Rightarrow> findings" where
  \<comment> \<open>the three lists only ever grow by \<open>append\<close>\<close>
  "add_findings acc new =
     (case acc of (e, w, m) \<Rightarrow> (case new of (e', w', m') \<Rightarrow> (e @ e', w @ w', m @ m')))"

definition validate_specs :: "(string \<Rightarrow> nat) \<Rightarrow> PrintSpecs option \<Rightarrow> ValidationResult" where
  "validate_specs h specs_opt =
     (case specs_opt of
        None \<Rightarrow>
          \<lparr>is_valid = False,
           errors = [''No specifications could be extracted from input''],
           warnings = [], missing_fields = []\<rparr>
      | Some specs \<Rightarrow>
          (let (errs, warns, missing) =
                 foldl add_findings ([], [], [])
                   [check_product_type specs, check_quantity specs, check_size specs,
                    check_artwork_dpi specs, check_turnaround h specs, check_options specs,
                    check_missing_optional specs, check_business_rules specs]
           in \<lparr>is_valid = (length errs = 0), errors = errs, warnings = warns,
               missing_fields = missing\<rparr>))"

section \<open>Fixtures (tests/conftest.py)\<close>

definition minimal_specs :: PrintSpecs where
  \<comment> \<open>\<open>PrintSpecs(product_type="business_cards", quantity=100)\<close>, defaults elsewhere\<close>
  "minimal_specs =
     \<lparr>product_type = Some ''business_cards'', quantity = Some 100, size_str = None,
      paper_stock = None, sides = None, finish = None, color_mode = None, options = [],
      turnaround_days = None, is_rush = Some False, artwork_dpi = None, raw_input = None\<rparr>"

section \<open>Properties of the print method decision\<close>

lemma sublist_append_right: "sublist x ys \<Longrightarrow> sublist x (zs @ ys)"
  by (metis sublist_append)

lemma threshold_of_default: "threshold_of get_default_pricing_config = 500"
  by (simp add: threshold_of_def get_default_pricing_config_def)

lemma determine_print_method_fst:
  "fst (determine_print_method q cfg) = (if q < threshold_of cfg then Digital else Offset)"
  by (simp add: determine_print_method_def Let_def)

lemma determine_print_method_names_quantity:
  "sublist (str_int q) (snd (determine_print_method q cfg))"
  unfolding determine_print_method_def Let_def
  by (cases "q < threshold_of cfg") (simp_all only: if_True if_False snd_conv sublist_appendI)

lemma determine_print_method_names_threshold:
  "sublist (str_int (threshold_of cfg)) (snd (determine_print_method q cfg))"
  unfolding determine_print_method_def Let_def
  by (cases "q < threshold_of cfg")
     (simp_all only: if_True if_False snd_conv sublist_appendI sublist_append_right)

lemma determine_print_method_499:
  "determine_print_method 499 get_default_pricing_config =
     (Digital, ''Digital printing selected: quantity (499) below 500 threshold. Faster turnaround, no plate setup required.'')"
  by code_simp

lemma determine_print_method_500:
  "determine_print_method 500 get_default_pricing_config =
     (Offset, ''Offset printing selected: quantity (500) at or above 500 threshold. Lower per-unit cost at scale, requires plate setup.'')"
  by code_simp

lemma threshold_of_configured:
  "cfg_print_method cfg = Some pm \<Longrightarrow> threshold_quantity pm = Some t \<Longrightarrow> threshold_of cfg = t"
  by (simp add: threshold_of_def)

lemma threshold_of_absent:
  "cfg_print_method cfg = None
   \<or> (\<exists>pm. cfg_print_method cfg = Some pm \<and> threshold_quantity pm = None)
   \<Longrightarrow> threshold_of cfg = 500"
  by (auto simp: threshold_of_def)

text \<open>
  C5. The print method is decided by the quantity and the configured threshold alone: the
  threshold is the entry \<open>threshold_quantity\<close> of the configuration's \<open>print_method\<close>
  table, 500 when the table or the entry is absent, and two configurations with the same
  threshold give the same decision and the same justification. A quantity strictly
  below the threshold selects "digital", a quantity at or above it selects "offset". The
  embedded default threshold is 500, so 499 yields "digital" and 500 yields "offset". The
  justification string contains the decimal rendering of the quantity and of the
  threshold.
\<close>

theorem determine_print_method_by_threshold:
  "print_method_str (fst (determine_print_method q cfg)) =
      (if q < threshold_of cfg then ''digital'' else ''offset'')
   \<and> (\<forall>pm t. cfg_print_method cfg = Some pm \<and> threshold_quantity pm = Some t \<longrightarrow>
         threshold_of cfg = t
         \<and> print_method_str (fst (determine_print_method q cfg)) =
             (if q < t then ''digital'' else ''offset'')
         \<and> sublist (str_int t) (snd (determine_print_method q cfg)))
   \<and> (cfg_print_method cfg = None
        \<or> (\<exists>pm. cfg_print_method cfg = Some pm \<and> threshold_quantity pm = None) \<longrightarrow>
         threshold_of cfg = 500)
   \<and> (threshold_of cfg = threshold_of cfg' \<longrightarrow>
          determine_print_method q cfg = determine_print_method q cfg')
   \<and> sublist (str_int q) (snd (determine_print_method q cfg))
   \<and> sublist (str_int (threshold_of cfg)) (snd (determine_print_method q cfg))
   \<and> threshold_of get_default_pricing_config = 500
   \<and> determine_print_method 499 get_default_pricing_config =
         (Digital, ''Digital printing selected: quantity (499) below 500 threshold. Faster turnaround, no plate setup required.'')
   \<and> determine_print_method 500 get_default_pricing_config =
         (Offset, ''Offset printing selected: quantity (500) at or above 500 threshold. Lower per-unit cost at scale, requires plate setup.'')"
proof -
  have decision: "print_method_str (fst (determine_print_method q cfg)) =
          (if q < threshold_of cfg then ''digital'' else ''offset'')"
    by (simp add: determine_print_method_fst)
  have configured: "threshold_of cfg = t
         \<and> print_method_str (fst (determine_print_method q cfg)) =
             (if q < t then ''digital'' else ''offset'')
         \<and> sublist (str_int t) (snd (determine_print_method q cfg))"
    if "cfg_print_method cfg = Some pm \<and> threshold_quantity pm = Some t" for pm t
  proof -
    from that have "threshold_of cfg = t" by (simp add: threshold_of_configured)
    with decision determine_print_method_names_threshold [of cfg q] show ?thesis by simp
  qed
  have same: "threshold_of cfg = threshold_of cfg' \<longrightarrow>
          determine_print_method q cfg = determine_print_method q cfg'"
    by (simp add: determine_print_method_def)
  show ?thesis
    using decision configured same threshold_of_absent [of cfg]
      determine_print_method_names_quantity [of q cfg]
      determine_print_method_names_threshold [of cfg q]
      threshold_of_default determine_print_method_499 determine_print_method_500
    by blast
qed

theorem determine_print_method_by_threshold_witness:
  "print_method_str (fst (determine_print_method 499 get_default_pricing_config)) = ''digital''
   \<and> print_method_str (fst (determine_print_method 500 get_default_pricing_config)) = ''offset''
   \<and> determine_print_method 499 get_default_pricing_config =
       determine_print_method 499 (get_default_pricing_config\<lparr>cfg_tax_rate := Some 0.08\<rparr>)
   \<and> cfg_print_method
         (get_default_pricing_config
            \<lparr>cfg_print_method :=
               Some \<lparr>digital = None, offset = None, threshold_quantity = Some 1000\<rparr>\<rparr>) =
       Some \<lparr>digital = None, offset = None, threshold_quantity = Some 1000\<rparr>
   \<and> print_method_str (fst (determine_print_method 700
         (get_default_pricing_config
            \<lparr>cfg_print_method :=
               Some \<lparr>digital = None, offset = None, threshold_quantity = Some 1000\<rparr>\<rparr>))) =
       ''digital''
   \<and> print_method_str (fst (determine_print_method 1000
         (get_default_pricing_config
            \<lparr>cfg_print_method :=
               Some \<lparr>digital = None, offset = None, threshold_quantity = Some 1000\<rparr>\<rparr>))) =
       ''offset''
   \<and> print_method_str (fst (determine_print_method 700
         (get_default_pricing_config\<lparr>cfg_print_method := None\<rparr>))) = ''offset''"
proof -
  let ?pm = "\<lparr>digital = None, offset = None, threshold_quantity = Some (1000::int)\<rparr>"
  let ?c = "get_default_pricing_config\<lparr>cfg_print_method := Some ?pm\<rparr>"
  let ?n = "get_default_pricing_config\<lparr>cfg_print_method := None\<rparr>"
  have c: "cfg_print_method ?c = Some ?pm" "threshold_quantity ?pm = Some 1000"
    "cfg_print_method ?n = None"
    by simp_all
  from determine_print_method_by_threshold [of 700 ?c] c
  have a: "print_method_str (fst (determine_print_method 700 ?c)) = ''digital''"
    by (auto simp del: print_method_str.simps)
  from determine_print_method_by_threshold [of 1000 ?c] c
  have b: "print_method_str (fst (determine_print_method 1000 ?c)) = ''offset''"
    by (auto simp del: print_method_str.simps)
  from determine_print_method_by_threshold [of 700 ?n] c
  have d: "print_method_str (fst (determine_print_method 700 ?n)) = ''offset''"
    by (auto simp del: print_method_str.simps)
  from a b d c show ?thesis
    using determine_print_method_by_threshold
          [of 499 get_default_pricing_config "get_default_pricing_config\<lparr>cfg_tax_rate := Some 0.08\<rparr>"]
        determine_print_method_by_threshold
          [of 500 get_default_pricing_config get_default_pricing_config]
    by (simp add: threshold_of_def get_default_pricing_config_def)
qed

section \<open>Rounding\<close>

lemma round_half_even_bounds: "\<lfloor>y\<rfloor> \<le> round_half_even y \<and> round_half_even y \<le> \<lfloor>y\<rfloor> + 1"
  by (simp add: round_half_even_def Let_def)

lemma round_half_even_mono:
  assumes "x \<le> y" shows "round_half_even x \<le> round_half_even y"
proof (cases "\<lfloor>x\<rfloor> = \<lfloor>y\<rfloor>")
  case True
  with assms have "x - of_int \<lfloor>y\<rfloor> \<le> y - of_int \<lfloor>y\<rfloor>" by simp
  with True show ?thesis
    by (auto simp: round_half_even_def Let_def)
next
  case False
  with assms have "\<lfloor>x\<rfloor> < \<lfloor>y\<rfloor>"
    by (simp add: floor_mono order.not_eq_order_implies_strict)
  then show ?thesis
    using round_half_even_bounds [of x] round_half_even_bounds [of y] by linarith
qed

lemma round_half_even_of_int [simp]: "round_half_even (of_int n) = n"
  by (simp add: round_half_even_def Let_def)

lemma round2_mono: "x \<le> y \<Longrightarrow> round2 x \<le> round2 y"
  by (simp add: round2_def round_half_even_mono divide_right_mono)

lemma round2_zero [simp]: "round2 0 = 0"
  using round_half_even_of_int [of 0] by (simp add: round2_def)

lemma round2_nonneg: "0 \<le> x \<Longrightarrow> 0 \<le> round2 x"
  using round2_mono [of 0 x] by simp

lemma round2_cents: "round2 (of_int n / 100) = of_int n / 100"
  by (simp add: round2_def)

lemma round2_negative: "x \<le> - (1 / 100) \<Longrightarrow> round2 x < 0"
proof -
  assume "x \<le> - (1 / 100)"
  then have "round2 x \<le> round2 (of_int (- 1) / 100)"
    by (intro round2_mono) simp
  also have "\<dots> = of_int (- 1) / 100" by (rule round2_cents)
  finally show ?thesis by simp
qed

section \<open>The local variables of the pricing calculation\<close>

lemma price_vars_quantity: "v_quantity (price_vars c pc s) = quantity_of s"
  by (simp add: price_vars_def Let_def split_def)

lemma price_vars_print_method:
  "v_print_method (price_vars c pc s) = fst (determine_print_method (quantity_of s) c)"
  by (simp add: price_vars_def Let_def split_def)

lemma price_vars_material_cost:
  "v_material_cost (price_vars c pc s) = material_per_unit pc * of_int (quantity_of s)"
  by (simp add: price_vars_def Let_def split_def)

lemma price_vars_print_cost:
  "v_print_cost (price_vars c pc s) =
     print_per_unit pc * of_int (quantity_of s)
       * dict_get (method_config_of c (v_print_method (price_vars c pc s))) ''cost_multiplier'' 1
       * fst (apply_modifiers c s)"
  by (simp add: price_vars_def Let_def split_def)

lemma price_vars_setup_cost:
  "v_setup_cost (price_vars c pc s) =
     dict_get (method_config_of c (v_print_method (price_vars c pc s))) ''setup_cost'' 15"
  by (simp add: price_vars_def Let_def split_def)

lemma price_vars_finishing_cost:
  "v_finishing_cost (price_vars c pc s) =
     finishing_per_unit pc * of_int (quantity_of s) * fst (apply_modifiers c s)"
  by (simp add: price_vars_def Let_def split_def)

lemma price_vars_option_costs:
  "v_option_costs (price_vars c pc s) =
     fst (option_loop (or_empty (cfg_options c)) (quantity_of s) (options s)
            ([], snd (apply_modifiers c s)))"
  by (simp add: price_vars_def Let_def split_def)

lemma price_vars_pre_discount_total:
  "v_pre_discount_total (price_vars c pc s) =
     v_material_cost (price_vars c pc s) + v_print_cost (price_vars c pc s)
       + v_setup_cost (price_vars c pc s) + v_finishing_cost (price_vars c pc s)
       + sum_list (map snd (v_option_costs (price_vars c pc s)))"
  by (simp add: price_vars_def Let_def split_def)

lemma price_vars_discount_rate:
  "v_discount_rate (price_vars c pc s) =
     (case find_discount_tier c (quantity_of s) of None \<Rightarrow> 0 | Some tier \<Rightarrow> discount tier)"
  by (simp add: price_vars_def Let_def split_def split: option.splits)

lemma price_vars_quantity_discount:
  "v_quantity_discount (price_vars c pc s) =
     - v_pre_discount_total (price_vars c pc s) * v_discount_rate (price_vars c pc s)"
  by (simp add: price_vars_def Let_def split_def split: option.splits)

lemma price_vars_rush_multiplier:
  "v_rush_multiplier (price_vars c pc s) =
     (if rush_triggered s then Some (fst (rush_selection c s)) else None)"
  by (simp add: price_vars_def Let_def split_def)

lemma price_vars_rush_fee:
  "v_rush_fee (price_vars c pc s) =
     (case v_rush_multiplier (price_vars c pc s) of None \<Rightarrow> 0
      | Some m \<Rightarrow> (v_pre_discount_total (price_vars c pc s)
                    + v_quantity_discount (price_vars c pc s)) * (m - 1))"
  by (simp add: price_vars_def Let_def split_def)

lemma price_vars_cost_subtotal:
  "v_cost_subtotal (price_vars c pc s) =
     v_pre_discount_total (price_vars c pc s) + v_quantity_discount (price_vars c pc s)
       + v_rush_fee (price_vars c pc s)"
  by (simp add: price_vars_def Let_def split_def)

lemma price_vars_margin_percent:
  "v_margin_percent (price_vars c pc s) =
     (case cfg_margin_percent c of None \<Rightarrow> 3 / 10 | Some m \<Rightarrow> m)"
  by (simp add: price_vars_def Let_def split_def split: option.splits)

lemma price_vars_margin_amount:
  "v_margin_amount (price_vars c pc s) =
     v_cost_subtotal (price_vars c pc s) * v_margin_percent (price_vars c pc s)"
  by (simp add: price_vars_def Let_def split_def)

lemma price_vars_computed_subtotal:
  "v_computed_subtotal (price_vars c pc s) =
     v_cost_subtotal (price_vars c pc s) + v_margin_amount (price_vars c pc s)"
  by (simp add: price_vars_def Let_def split_def)

lemma price_vars_minimum_price:
  "v_minimum_price (price_vars c pc s) =
     (case minimum_price pc of None \<Rightarrow> 25 | Some m \<Rightarrow> m)"
  by (simp add: price_vars_def Let_def split_def split: option.splits)

lemma price_vars_subtotal:
  "v_subtotal (price_vars c pc s) =
     (if v_computed_subtotal (price_vars c pc s) < v_minimum_price (price_vars c pc s)
      then v_minimum_price (price_vars c pc s) else v_computed_subtotal (price_vars c pc s))"
  by (simp add: price_vars_def Let_def split_def)

lemma price_vars_tax:
  "v_tax (price_vars c pc s) =
     v_subtotal (price_vars c pc s) * (case cfg_tax_rate c of None \<Rightarrow> 0 | Some t \<Rightarrow> t)"
  by (simp add: price_vars_def Let_def split_def split: option.splits)

lemma price_vars_total:
  "v_total (price_vars c pc s) = v_subtotal (price_vars c pc s) + v_tax (price_vars c pc s)"
  by (simp add: price_vars_def Let_def split_def)

lemma price_vars_notes_minimum:
  "v_computed_subtotal (price_vars c pc s) < v_minimum_price (price_vars c pc s) \<Longrightarrow>
     (''Minimum order price of $'' @ fmt_2f (v_minimum_price (price_vars c pc s)) @ '' applied'')
       \<in> set (v_estimate_notes (price_vars c pc s))"
  by (simp add: price_vars_def Let_def split_def)

lemma price_vars_notes_rush:
  "rush_triggered s \<Longrightarrow>
     (snd (rush_selection c s) @ '' rush fee applied (''
        @ str_int (py_int ((fst (rush_selection c s) - 1) * 100)) @ ''% surcharge)'')
       \<in> set (v_estimate_notes (price_vars c pc s))"
  by (simp add: price_vars_def Let_def split_def)

lemma price_vars_notes_discount:
  "find_discount_tier c (quantity_of s) = Some tier \<Longrightarrow>
     (str_int (py_int (discount tier * 100)) @ ''% volume discount applied'')
       \<in> set (v_estimate_notes (price_vars c pc s))"
  by (simp add: price_vars_def Let_def split_def)

lemma build_response_Inr:
  assumes "build_response v = Inr est"
  shows "material_cost (breakdown est) = round2 (v_material_cost v)"
    and "print_cost (breakdown est) = round2 (v_print_cost v)"
    and "setup_cost (breakdown est) = round2 (v_setup_cost v)"
    and "finishing_cost (breakdown est) = round2 (v_finishing_cost v)"
    and "option_costs (breakdown est) = map (\<lambda>(k, c). (k, round2 c)) (v_option_costs v)"
    and "rush_fee (breakdown est) = round2 (v_rush_fee v)"
    and "quantity_discount (breakdown est) = round2 (v_quantity_discount v)"
    and "margin_amount (breakdown est) = round2 (v_margin_amount v)"
    and "margin_percent (breakdown est) = v_margin_percent v * 100"
    and "subtotal est = round2 (v_subtotal v)"
    and "tax est = round2 (v_tax v)"
    and "total est = round2 (v_total v)"
    and "print_method est = v_print_method v"
    and "print_method_reason est = v_method_reason v"
    and "estimate_notes est = v_estimate_notes v"
    and "currency est = ''USD''"
  using assms
  by (auto simp: build_response_def new_PricingBreakdown_def new_PriceEstimate_def
           split: sum.splits if_splits)

lemma build_response_Inr_nonneg:
  assumes "build_response v = Inr est"
  shows "0 \<le> round2 (v_material_cost v)" "0 \<le> round2 (v_print_cost v)"
    "0 \<le> round2 (v_setup_cost v)" "0 \<le> round2 (v_finishing_cost v)"
    "0 \<le> round2 (v_margin_amount v)" "0 \<le> round2 (v_subtotal v)" "0 \<le> round2 (v_total v)"
  using assms
  by (auto simp: build_response_def new_PricingBreakdown_def new_PriceEstimate_def
           split: sum.splits if_splits)

lemma build_response_returns:
  assumes "0 \<le> v_material_cost v" "0 \<le> v_print_cost v" "0 \<le> v_setup_cost v"
    "0 \<le> v_finishing_cost v" "0 \<le> v_margin_amount v" "0 \<le> v_margin_percent v"
    "0 \<le> v_subtotal v" "0 \<le> v_total v"
  shows "\<exists>est. build_response v = Inr est"
  using assms
  by (simp add: build_response_def new_PricingBreakdown_def new_PriceEstimate_def round2_nonneg
           not_less)

section \<open>Properties of the validator\<close>

lemma sublist_join: "x \<in> set xs \<Longrightarrow> sublist x (join sep xs)"
proof (induction sep xs rule: join.induct)
  case (3 sep a b ys)
  show ?case
  proof (cases "x = a")
    case True
    then show ?thesis by (simp add: sublist_append_rightI)
  next
    case False
    with 3 have "sublist x (join sep (b # ys))" by simp
    then show ?thesis by (simp add: sublist_append_right)
  qed
qed simp_all

lemma set_set_iter [simp]: "set (set_iter h xs) = set xs"
  by (simp add: set_iter_def)

lemma set_conflicting_options:
  "set (conflicting_options h s) = set (options s) \<inter> set slow_options"
  by (auto simp: conflicting_options_def)

lemma validate_specs_errors:
  "errors (validate_specs h (Some s)) =
     fst (check_product_type s) @ fst (check_quantity s) @ fst (check_artwork_dpi s)
       @ fst (check_turnaround h s)"
  by (simp add: validate_specs_def add_findings_def split_def
        check_size_def check_options_def check_missing_optional_def check_business_rules_def Let_def)

lemma validate_specs_is_valid:
  "is_valid (validate_specs h so) = (errors (validate_specs h so) = [])"
  by (cases so) (simp_all add: validate_specs_def split_def Let_def)

lemma sorted_product_types:
  "join '', '' (sort VALID_PRODUCT_TYPES) =
     ''banners, booklets, brochures, business_cards, catalogs, envelopes, flyers, folders, letterhead, magazines, notepads, postcards, posters, stickers''"
  by code_simp

lemma check_turnaround_conflict:
  assumes "turnaround_days s = Some d" "d \<le> 2" "set (options s) \<inter> set slow_options \<noteq> {}"
  shows "(''Rush turnaround conflicts with options: ''
            @ join '', '' (conflicting_options h s) @ ''. ''
            @ ''These options require 5+ business days.'') \<in> set (fst (check_turnaround h s))"
proof -
  from assms(3) have "options s \<noteq> []" by auto
  moreover from assms(3) have "conflicting_options h s \<noteq> []"
    using set_conflicting_options [of h s] by (metis set_empty)
  ultimately show ?thesis
    using assms(1,2) by (simp add: check_turnaround_def Let_def split_def)
qed

lemma conflicting_embossing:
  "conflicting_options h (s\<lparr>turnaround_days := Some 1, options := [''embossing'']\<rparr>) = [''embossing'']"
  by (simp add: conflicting_options_def set_iter_def slow_options_def)

lemma validate_specs_findings:
  "errors (validate_specs h (Some s)) =
     concat (map fst
       [check_product_type s, check_quantity s, check_size s, check_artwork_dpi s,
        check_turnaround h s, check_options s, check_missing_optional s,
        check_business_rules s])"
  "warnings (validate_specs h (Some s)) =
     concat (map (fst \<circ> snd)
       [check_product_type s, check_quantity s, check_size s, check_artwork_dpi s,
        check_turnaround h s, check_options s, check_missing_optional s,
        check_business_rules s])"
  "missing_fields (validate_specs h (Some s)) =
     concat (map (snd \<circ> snd)
       [check_product_type s, check_quantity s, check_size s, check_artwork_dpi s,
        check_turnaround h s, check_options s, check_missing_optional s,
        check_business_rules s])"
  by (simp_all add: validate_specs_def add_findings_def split_def)

text \<open>
  C6. The validator accumulates all its findings: the errors, the warnings and the missing
  fields of the result are the concatenations, in the order of the checks, of what each of
  the eight checks finds, none of which stops the others, and the result is valid exactly
  when the error list is empty, whatever the warnings and the missing fields. A
  specification with product type "unknown_xyz" and quantity -1 is invalid and has at
  least two distinct errors: the first names the unknown product type, the second says
  that the quantity must be positive.
\<close>

theorem validate_specs_accumulates_errors:
  "errors (validate_specs h (Some s)) =
      fst (check_product_type s) @ fst (check_quantity s) @ fst (check_artwork_dpi s)
        @ fst (check_turnaround h s)
   \<and> errors (validate_specs h (Some s)) =
      concat (map fst
        [check_product_type s, check_quantity s, check_size s, check_artwork_dpi s,
         check_turnaround h s, check_options s, check_missing_optional s,
         check_business_rules s])
   \<and> warnings (validate_specs h (Some s)) =
      concat (map (fst \<circ> snd)
        [check_product_type s, check_quantity s, check_size s, check_artwork_dpi s,
         check_turnaround h s, check_options s, check_missing_optional s,
         check_business_rules s])
   \<and> missing_fields (validate_specs h (Some s)) =
      concat (map (snd \<circ> snd)
        [check_product_type s, check_quantity s, check_size s, check_artwork_dpi s,
         check_turnaround h s, check_options s, check_missing_optional s,
         check_business_rules s])
   \<and> is_valid (validate_specs h (Some s)) = (errors (validate_specs h (Some s)) = [])
   \<and> \<not> is_valid (validate_specs h
            (Some (s\<lparr>product_type := Some ''unknown_xyz'', quantity := Some (- 1)\<rparr>)))
   \<and> take 2 (errors (validate_specs h
            (Some (s\<lparr>product_type := Some ''unknown_xyz'', quantity := Some (- 1)\<rparr>)))) =
       [''Unknown product type '' @ apos @ ''unknown_xyz'' @ apos @ ''. Valid types: banners, booklets, brochures, business_cards, catalogs, envelopes, flyers, folders, letterhead, magazines, notepads, postcards, posters, stickers'',
        ''Quantity must be a positive number'']
   \<and> 2 \<le> card (set (errors (validate_specs h
            (Some (s\<lparr>product_type := Some ''unknown_xyz'', quantity := Some (- 1)\<rparr>)))))"
proof -
  let ?r = "validate_specs h
              (Some (s\<lparr>product_type := Some ''unknown_xyz'', quantity := Some (- 1)\<rparr>))"
  let ?e1 = "''Unknown product type '' @ apos @ ''unknown_xyz'' @ apos @ ''. Valid types: banners, booklets, brochures, business_cards, catalogs, envelopes, flyers, folders, letterhead, magazines, notepads, postcards, posters, stickers''"
  let ?e2 = "''Quantity must be a positive number''"
  have two: "take 2 (errors ?r) = [?e1, ?e2]"
    by (simp add: validate_specs_errors check_product_type_def check_quantity_def
          truthy_def VALID_PRODUCT_TYPES_def sorted_product_types [unfolded VALID_PRODUCT_TYPES_def])
  have "set (take 2 (errors ?r)) \<subseteq> set (errors ?r)"
    by (rule set_take_subset)
  then have "card (set (take 2 (errors ?r))) \<le> card (set (errors ?r))"
    by (simp add: card_mono)
  moreover have "card (set (take 2 (errors ?r))) = 2"
    unfolding two by simp
  ultimately have c: "2 \<le> card (set (errors ?r))" by simp
  from two have "errors ?r \<noteq> []" by auto
  then have inv: "\<not> is_valid ?r" by (simp add: validate_specs_is_valid)
  show ?thesis
    using two c inv validate_specs_errors [of h s] validate_specs_findings [of h s]
      validate_specs_is_valid [of h "Some s"]
    by blast
qed

theorem validate_specs_accumulates_errors_witness:
  "validate_specs (\<lambda>_. 0)
        (Some (minimal_specs\<lparr>product_type := Some ''unknown_xyz'', quantity := Some (- 1)\<rparr>)) =
     \<lparr>is_valid = False,
      errors =
       [''Unknown product type '' @ apos @ ''unknown_xyz'' @ apos @ ''. Valid types: banners, booklets, brochures, business_cards, catalogs, envelopes, flyers, folders, letterhead, magazines, notepads, postcards, posters, stickers'',
        ''Quantity must be a positive number''],
      warnings =
       [''Size not specified - using standard size for product type'',
        ''Sides not specified - defaulting to single-sided'',
        ''Finish not specified - defaulting to matte'',
        ''Color mode not specified - assuming full color''],
      missing_fields = [''size'', ''sides'', ''finish'', ''color_mode'', ''paper_stock'']\<rparr>"
proof -
  let ?s = "minimal_specs\<lparr>product_type := Some ''unknown_xyz'', quantity := Some (- 1)\<rparr>"
  let ?r = "validate_specs (\<lambda>_. 0) (Some ?s)"
  have blocks:
    "check_product_type ?s =
       ([''Unknown product type '' @ apos @ ''unknown_xyz'' @ apos @ ''. Valid types: banners, booklets, brochures, business_cards, catalogs, envelopes, flyers, folders, letterhead, magazines, notepads, postcards, posters, stickers''], [], [])"
    "check_quantity ?s = ([''Quantity must be a positive number''], [], [])"
    "check_size ?s = ([], [''Size not specified - using standard size for product type''], [''size''])"
    "check_artwork_dpi ?s = ([], [], [])"
    "check_turnaround (\<lambda>_. 0) ?s = ([], [], [])"
    "check_options ?s = ([], [], [])"
    "check_missing_optional ?s =
       ([], [''Sides not specified - defaulting to single-sided'',
             ''Finish not specified - defaulting to matte'',
             ''Color mode not specified - assuming full color''],
        [''sides'', ''finish'', ''color_mode'', ''paper_stock''])"
    "check_business_rules ?s = ([], [], [])"
    by (simp_all add: minimal_specs_def check_product_type_def check_quantity_def check_size_def
          check_artwork_dpi_def check_turnaround_def check_options_def
          check_missing_optional_def check_business_rules_def truthy_def
          VALID_PRODUCT_TYPES_def sorted_product_types [unfolded VALID_PRODUCT_TYPES_def])
  from validate_specs_accumulates_errors [of "\<lambda>_. 0" ?s]
  have "errors ?r = [''Unknown product type '' @ apos @ ''unknown_xyz'' @ apos @ ''. Valid types: banners, booklets, brochures, business_cards, catalogs, envelopes, flyers, folders, letterhead, magazines, notepads, postcards, posters, stickers'',
        ''Quantity must be a positive number'']"
    and "warnings ?r =
       [''Size not specified - using standard size for product type'',
        ''Sides not specified - defaulting to single-sided'',
        ''Finish not specified - defaulting to matte'',
        ''Color mode not specified - assuming full color'']"
    and "missing_fields ?r = [''size'', ''sides'', ''finish'', ''color_mode'', ''paper_stock'']"
    and "\<not> is_valid ?r"
    by (simp_all add: blocks)
  then show ?thesis by (cases ?r) simp
qed

text \<open>
  C7. Whenever the turnaround is present and at most 2 days and the options include one of
  the slow production options (foil_stamping, embossing, die_cut), the error list holds
  the rush conflict error, whose text contains every conflicting option, and the
  specification is invalid. In particular a 1-day turnaround with the single option
  "embossing" yields the error "Rush turnaround conflicts with options: embossing. These
  options require 5+ business days." and is invalid.
\<close>

theorem validate_specs_rush_conflict:
  assumes "turnaround_days s = Some d" and "d \<le> 2"
    and "set (options s) \<inter> set slow_options \<noteq> {}"
  shows "(''Rush turnaround conflicts with options: ''
            @ join '', '' (conflicting_options h s) @ ''. ''
            @ ''These options require 5+ business days.'')
           \<in> set (errors (validate_specs h (Some s)))
    \<and> set (conflicting_options h s) = set (options s) \<inter> set slow_options
    \<and> (\<forall>opt \<in> set (options s) \<inter> set slow_options.
           sublist opt (''Rush turnaround conflicts with options: ''
                          @ join '', '' (conflicting_options h s) @ ''. ''
                          @ ''These options require 5+ business days.''))
    \<and> \<not> is_valid (validate_specs h (Some s))
    \<and> ''Rush turnaround conflicts with options: embossing. These options require 5+ business days.''
           \<in> set (errors (validate_specs h
                  (Some (s\<lparr>turnaround_days := Some 1, options := [''embossing'']\<rparr>))))
    \<and> \<not> is_valid (validate_specs h
            (Some (s\<lparr>turnaround_days := Some 1, options := [''embossing'']\<rparr>)))"
proof -
  let ?e = "''Rush turnaround conflicts with options: ''
              @ join '', '' (conflicting_options h s) @ ''. ''
              @ ''These options require 5+ business days.''"
  have mem: "?e \<in> set (errors (validate_specs h (Some s)))"
    using check_turnaround_conflict [OF assms, of h] by (simp add: validate_specs_errors)
  then have invalid: "\<not> is_valid (validate_specs h (Some s))"
    by (auto simp: validate_specs_is_valid)
  have names: "\<forall>opt \<in> set (options s) \<inter> set slow_options. sublist opt ?e"
  proof
    fix opt assume "opt \<in> set (options s) \<inter> set slow_options"
    then have "opt \<in> set (conflicting_options h s)"
      by (simp add: set_conflicting_options)
    then have "sublist opt (join '', '' (conflicting_options h s))"
      by (rule sublist_join)
    then show "sublist opt ?e"
      by (metis sublist_append sublist_append_right)
  qed
  let ?s1 = "s\<lparr>turnaround_days := Some 1, options := [''embossing'']\<rparr>"
  have mem1: "''Rush turnaround conflicts with options: embossing. These options require 5+ business days.''
                \<in> set (errors (validate_specs h (Some ?s1)))"
    using check_turnaround_conflict [of ?s1 1 h]
    by (simp add: validate_specs_errors conflicting_embossing slow_options_def)
  then have "\<not> is_valid (validate_specs h (Some ?s1))"
    by (auto simp: validate_specs_is_valid)
  with mem invalid names mem1 show ?thesis
    by (simp add: set_conflicting_options)
qed

theorem validate_specs_rush_conflict_witness:
  "turnaround_days (minimal_specs\<lparr>turnaround_days := Some 1, options := [''embossing'']\<rparr>) = Some 1
   \<and> (1::int) \<le> 2
   \<and> set (options (minimal_specs\<lparr>turnaround_days := Some 1, options := [''embossing'']\<rparr>))
         \<inter> set slow_options \<noteq> {}
   \<and> ''Rush turnaround conflicts with options: embossing. These options require 5+ business days.''
         \<in> set (errors (validate_specs (\<lambda>_. 0)
                (Some (minimal_specs\<lparr>turnaround_days := Some 1, options := [''embossing'']\<rparr>))))
   \<and> \<not> is_valid (validate_specs (\<lambda>_. 0)
          (Some (minimal_specs\<lparr>turnaround_days := Some 1, options := [''embossing'']\<rparr>)))"
proof -
  let ?s = "minimal_specs\<lparr>turnaround_days := Some 1, options := [''embossing'']\<rparr>"
  have h1: "turnaround_days ?s = Some 1" by simp
  have h2: "(1::int) \<le> 2" by simp
  have h3: "set (options ?s) \<inter> set slow_options \<noteq> {}" by (simp add: slow_options_def)
  show ?thesis
    using validate_specs_rush_conflict [OF h1 h2 h3, of "\<lambda>_. 0"] h1 h3
    by (simp add: conflicting_embossing)
qed

section \<open>Discount tiers\<close>

lemma set_sorted_desc [simp]: "set (sorted_desc f xs) = set xs"
  by (simp add: sorted_desc_def)

lemma sorted_desc_descending: "sorted_wrt (\<lambda>a b. f b \<le> f a) (sorted_desc f xs)"
proof -
  have "sorted (map f (sort_key f (rev xs)))" by simp
  then have "sorted_wrt (\<lambda>a b. f a \<le> f b) (sort_key f (rev xs))"
    by (simp add: sorted_map)
  then show ?thesis
    by (simp add: sorted_desc_def sorted_wrt_rev)
qed

lemma find_descending_max:
  "sorted_wrt (\<lambda>a b. f b \<le> f a) xs \<Longrightarrow> find P xs = Some t \<Longrightarrow> t' \<in> set xs \<Longrightarrow> P t'
     \<Longrightarrow> f t' \<le> (f t :: int)"
  by (induction xs) (auto split: if_splits)

lemma find_SomeD: "find P xs = Some t \<Longrightarrow> t \<in> set xs \<and> P t"
  by (induction xs) (auto split: if_splits)

lemma find_discount_tier_None:
  "find_discount_tier c q = None \<longleftrightarrow> (\<forall>t \<in> set (or_empty (cfg_quantity_discounts c)). q < min_quantity t)"
  by (auto simp: find_discount_tier_def find_None_iff not_le)

lemma find_discount_tier_Some:
  assumes "find_discount_tier c q = Some t"
  shows "t \<in> set (or_empty (cfg_quantity_discounts c))" "min_quantity t \<le> q"
    "\<forall>t' \<in> set (or_empty (cfg_quantity_discounts c)). min_quantity t' \<le> q \<longrightarrow> min_quantity t' \<le> min_quantity t"
proof -
  let ?xs = "sorted_desc min_quantity (or_empty (cfg_quantity_discounts c))"
  from assms have f: "find (\<lambda>tier. min_quantity tier \<le> q) ?xs = Some t"
    by (simp add: find_discount_tier_def)
  then have "t \<in> set ?xs \<and> min_quantity t \<le> q"
    by (rule find_SomeD)
  then show "t \<in> set (or_empty (cfg_quantity_discounts c))" "min_quantity t \<le> q" by simp_all
  show "\<forall>t' \<in> set (or_empty (cfg_quantity_discounts c)). min_quantity t' \<le> q \<longrightarrow> min_quantity t' \<le> min_quantity t"
    using find_descending_max [OF sorted_desc_descending f] by simp
qed

lemma sorted_desc_stable:
  "filter (\<lambda>x. f x = k) (sorted_desc f xs) = filter (\<lambda>x. f x = k) xs"
proof -
  have "filter (\<lambda>x. f x = k) (sorted_desc f xs) =
        rev (filter (\<lambda>x. f x = k) (sort_key f (rev xs)))"
    by (simp add: sorted_desc_def rev_filter)
  also have "\<dots> = rev (filter (\<lambda>x. f x = k) (rev xs))"
    by (simp only: sort_key_stable)
  also have "\<dots> = filter (\<lambda>x. f x = k) xs"
    by (simp add: rev_filter)
  finally show ?thesis .
qed

lemma find_via_filter:
  "find P xs = (case filter P xs of [] \<Rightarrow> None | x # rest \<Rightarrow> Some x)"
  by (induction xs) simp_all

lemma find_first_of_key:
  "find (\<lambda>x. f x \<le> (q::int)) xs = Some t \<Longrightarrow> find (\<lambda>x. f x = f t) xs = Some t"
proof (induction xs)
  case Nil
  then show ?case by simp
next
  case (Cons x xs)
  show ?case
  proof (cases "f x \<le> q")
    case True
    with Cons.prems show ?thesis by simp
  next
    case False
    with Cons.prems have f: "find (\<lambda>x. f x \<le> q) xs = Some t" by simp
    then have "f t \<le> q" using find_SomeD [OF f] by simp
    with False have "f x \<noteq> f t" by auto
    with Cons.IH [OF f] show ?thesis by simp
  qed
qed

lemma find_discount_tier_first_listed:
  assumes "find_discount_tier c q = Some t"
  shows "find (\<lambda>t'. min_quantity t' = min_quantity t) (or_empty (cfg_quantity_discounts c)) = Some t"
proof -
  let ?xs = "or_empty (cfg_quantity_discounts c)"
  from assms have "find (\<lambda>t'. min_quantity t' = min_quantity t) (sorted_desc min_quantity ?xs) = Some t"
    unfolding find_discount_tier_def by (rule find_first_of_key)
  then show ?thesis
    by (simp add: find_via_filter [of _ "sorted_desc min_quantity ?xs"] find_via_filter [of _ ?xs]
          sorted_desc_stable)
qed

lemma default_tiers_sorted:
  "sorted_desc min_quantity (or_empty (cfg_quantity_discounts get_default_pricing_config)) =
     [\<lparr>min_quantity = 10000, discount = 0.25\<rparr>, \<lparr>min_quantity = 5000, discount = 0.20\<rparr>,
      \<lparr>min_quantity = 1000, discount = 0.15\<rparr>, \<lparr>min_quantity = 500, discount = 0.10\<rparr>,
      \<lparr>min_quantity = 250, discount = 0.05\<rparr>]"
  by (simp add: sorted_desc_def or_empty_def get_default_pricing_config_def)

lemma default_discount_rate:
  "(case find_discount_tier get_default_pricing_config q of None \<Rightarrow> 0 | Some tier \<Rightarrow> discount tier) =
     (if q < 250 then 0 else if q < 500 then 0.05 else if q < 1000 then 0.10
      else if q < 5000 then 0.15 else if q < 10000 then 0.20 else 0.25)"
  by (simp add: find_discount_tier_def default_tiers_sorted)

section \<open>The embedded default configuration\<close>

lemma dict_get_cases: "dict_get d k x = x \<or> dict_get d k x \<in> snd ` set d"
  by (auto simp: dict_get_def split: option.splits dest!: map_of_SomeD intro: rev_image_eqI)

lemma dict_get_pos:
  "0 < (x::rat) \<Longrightarrow> \<forall>v \<in> snd ` set d. 0 < v \<Longrightarrow> 0 < dict_get d k x"
  using dict_get_cases [of d k x] by auto

lemma finish_modifier_pos:
  "\<forall>v \<in> snd ` set d. 0 < v \<Longrightarrow> 0 < finish_modifier d f"
  by (simp add: finish_modifier_def Let_def dict_get_pos)

lemma apply_modifiers_pos:
  assumes "\<forall>v \<in> snd ` set (or_empty (cfg_modifiers c)). 0 < v"
  shows "0 < fst (apply_modifiers c s)"
  using assms
  by (simp add: apply_modifiers_def Let_def split_def dict_get_pos finish_modifier_pos
        split: option.splits)

lemma default_modifiers_pos:
  "\<forall>v \<in> snd ` set (or_empty (cfg_modifiers get_default_pricing_config)). 0 < v"
  by (simp add: get_default_pricing_config_def or_empty_def)

lemma apply_modifiers_default_pos: "0 < fst (apply_modifiers get_default_pricing_config s)"
  by (rule apply_modifiers_pos [OF default_modifiers_pos])

lemma default_cost_multiplier:
  "dict_get (method_config_of get_default_pricing_config pm) ''cost_multiplier'' 1 =
     (case pm of Digital \<Rightarrow> 1 | Offset \<Rightarrow> 0.6)"
  by (cases pm) (simp_all add: method_config_of_def get_default_pricing_config_def or_empty_def dict_get_def)

lemma default_setup_cost:
  "dict_get (method_config_of get_default_pricing_config pm) ''setup_cost'' 15 =
     (case pm of Digital \<Rightarrow> 15 | Offset \<Rightarrow> 150)"
  by (cases pm) (simp_all add: method_config_of_def get_default_pricing_config_def or_empty_def dict_get_def)

lemma default_product_config:
  assumes "product_config_of get_default_pricing_config s = Inr pc"
  shows "1 / 50 \<le> material_per_unit pc \<and> 0 < print_per_unit pc \<and> 0 < finishing_per_unit pc
         \<and> 0 < (case minimum_price pc of None \<Rightarrow> 25 | Some m \<Rightarrow> m)"
proof -
  let ?ps = "the (cfg_products get_default_pricing_config)"
  obtain k where "pc = dict_get ?ps k (the (map_of ?ps ''default''))"
    using assms
    by (auto simp: product_config_of_def Let_def get_default_pricing_config_def split: option.splits)
  then have "pc = the (map_of ?ps ''default'') \<or> pc \<in> snd ` set ?ps"
    using dict_get_cases by metis
  then show ?thesis
    by (auto simp: get_default_pricing_config_def)
qed

lemma default_product_config_exists:
  "\<exists>pc. product_config_of get_default_pricing_config s = Inr pc"
  by (simp add: product_config_of_def Let_def get_default_pricing_config_def)

lemma set_AList_update: "set (AList.update k v al) \<subseteq> insert (k, v) (set al)"
  by (induction al) auto

lemma AList_update_nonneg:
  "0 \<le> (x::rat) \<Longrightarrow> \<forall>v \<in> snd ` set costs. 0 \<le> v \<Longrightarrow>
     \<forall>v \<in> snd ` set (AList.update k x costs). 0 \<le> v"
  using set_AList_update [of k x costs] by fastforce

lemma option_loop_nonneg:
  assumes "\<forall>oc \<in> snd ` set ocfg. 0 \<le> price oc" and "0 \<le> q"
  shows "\<forall>v \<in> snd ` set costs. 0 \<le> v \<Longrightarrow>
         \<forall>v \<in> snd ` set (fst (option_loop ocfg q opts (costs, ns))). 0 \<le> v"
proof (induction opts arbitrary: costs ns)
  case Nil
  then show ?case by simp
next
  case (Cons opt rest)
  show ?case
  proof (cases "map_of ocfg opt")
    case None
    then have "option_loop ocfg q (opt # rest) (costs, ns) =
                 option_loop ocfg q rest
                   (costs, ns @ [''Option '' @ apos @ opt @ apos @ '' not in pricing catalog''])"
      by simp
    with Cons.IH [OF Cons.prems] show ?thesis by simp
  next
    case (Some oc)
    then have "oc \<in> snd ` set ocfg"
      by (auto dest!: map_of_SomeD intro: rev_image_eqI)
    with assms(1) have p0: "0 \<le> price oc" by blast
    with assms(2) have p1: "0 \<le> price oc * of_int q" by simp
    consider (flat) "pricing_type oc = ''flat''"
      | (unit) "pricing_type oc \<noteq> ''flat''" "pricing_type oc = ''per_unit''"
      | (other) "pricing_type oc \<noteq> ''flat''" "pricing_type oc \<noteq> ''per_unit''"
      by blast
    then show ?thesis
    proof cases
      case flat
      with Some have "option_loop ocfg q (opt # rest) (costs, ns) =
                 option_loop ocfg q rest (AList.update opt (price oc) costs, ns)"
        by simp
      with Cons.IH [OF AList_update_nonneg [OF p0 Cons.prems]] show ?thesis by simp
    next
      case unit
      with Some have "option_loop ocfg q (opt # rest) (costs, ns) =
                 option_loop ocfg q rest (AList.update opt (price oc * of_int q) costs, ns)"
        by simp
      with Cons.IH [OF AList_update_nonneg [OF p1 Cons.prems]] show ?thesis by simp
    next
      case other
      with Some have "option_loop ocfg q (opt # rest) (costs, ns) =
                 option_loop ocfg q rest (costs, ns)"
        by simp
      with Cons.IH [OF Cons.prems] show ?thesis by simp
    qed
  qed
qed

lemma default_option_prices:
  "\<forall>oc \<in> snd ` set (or_empty (cfg_options get_default_pricing_config)). 0 \<le> price oc"
  by (simp add: get_default_pricing_config_def or_empty_def)

lemma default_rush_multiplier: "1 \<le> fst (rush_selection get_default_pricing_config s)"
  by (simp add: rush_selection_def Let_def get_default_pricing_config_def or_empty_def dict_get_def)

lemma default_discount_rate_bounds:
  "0 \<le> v_discount_rate (price_vars get_default_pricing_config pc s)
   \<and> v_discount_rate (price_vars get_default_pricing_config pc s) \<le> 1 / 4"
  by (simp add: price_vars_discount_rate default_discount_rate)

lemma default_margin_percent: "v_margin_percent (price_vars get_default_pricing_config pc s) = 3 / 10"
  by (simp add: price_vars_margin_percent get_default_pricing_config_def)

lemma default_tax: "v_tax (price_vars get_default_pricing_config pc s) = 0"
  by (simp add: price_vars_tax get_default_pricing_config_def)

lemma default_price_vars_nonneg:
  assumes pc: "product_config_of get_default_pricing_config s = Inr pc"
    and q: "0 \<le> quantity_of s"
  shows "0 \<le> v_material_cost (price_vars get_default_pricing_config pc s)"
    and "0 \<le> v_print_cost (price_vars get_default_pricing_config pc s)"
    and "0 \<le> v_setup_cost (price_vars get_default_pricing_config pc s)"
    and "0 \<le> v_finishing_cost (price_vars get_default_pricing_config pc s)"
    and "\<forall>c \<in> snd ` set (v_option_costs (price_vars get_default_pricing_config pc s)). 0 \<le> c"
    and "0 \<le> v_pre_discount_total (price_vars get_default_pricing_config pc s)"
    and "0 \<le> v_pre_discount_total (price_vars get_default_pricing_config pc s)
              + v_quantity_discount (price_vars get_default_pricing_config pc s)"
    and "0 \<le> v_rush_fee (price_vars get_default_pricing_config pc s)"
    and "0 \<le> v_cost_subtotal (price_vars get_default_pricing_config pc s)"
    and "0 \<le> v_margin_amount (price_vars get_default_pricing_config pc s)"
    and "0 \<le> v_subtotal (price_vars get_default_pricing_config pc s)"
    and "0 \<le> v_total (price_vars get_default_pricing_config pc s)"
proof -
  let ?c = get_default_pricing_config
  let ?v = "price_vars ?c pc s"
  note rates = default_product_config [OF pc]
  have qr: "(0::rat) \<le> of_int (quantity_of s)" using q by simp
  have m: "0 < fst (apply_modifiers ?c s)" by (rule apply_modifiers_default_pos)
  show mat: "0 \<le> v_material_cost ?v"
    using rates qr by (simp add: price_vars_material_cost)
  have mult: "0 \<le> dict_get (method_config_of ?c (v_print_method ?v)) ''cost_multiplier'' 1"
    by (simp add: default_cost_multiplier split: print_method_t.splits)
  show prt: "0 \<le> v_print_cost ?v"
    unfolding price_vars_print_cost using rates qr m mult
    by (intro mult_nonneg_nonneg) simp_all
  show stp: "0 \<le> v_setup_cost ?v"
    by (simp add: price_vars_setup_cost default_setup_cost split: print_method_t.splits)
  show fin: "0 \<le> v_finishing_cost ?v"
    unfolding price_vars_finishing_cost using rates qr m
    by (intro mult_nonneg_nonneg) simp_all
  show opts: "\<forall>c \<in> snd ` set (v_option_costs ?v). 0 \<le> c"
    unfolding price_vars_option_costs
    by (rule option_loop_nonneg [OF default_option_prices q]) simp
  then have "0 \<le> sum_list (map snd (v_option_costs ?v))"
    by (intro sum_list_nonneg) auto
  with mat prt stp fin show pre: "0 \<le> v_pre_discount_total ?v"
    by (simp add: price_vars_pre_discount_total)
  have "v_pre_discount_total ?v + v_quantity_discount ?v =
          v_pre_discount_total ?v * (1 - v_discount_rate ?v)"
    by (simp add: price_vars_quantity_discount algebra_simps)
  moreover have "0 \<le> 1 - v_discount_rate ?v"
    using default_discount_rate_bounds [of pc s] by simp
  ultimately show base: "0 \<le> v_pre_discount_total ?v + v_quantity_discount ?v"
    using pre by simp
  show rush: "0 \<le> v_rush_fee ?v"
    using base default_rush_multiplier [of s]
    by (simp add: price_vars_rush_fee price_vars_rush_multiplier)
  from base rush show cost: "0 \<le> v_cost_subtotal ?v"
    by (simp add: price_vars_cost_subtotal)
  then show margin: "0 \<le> v_margin_amount ?v"
    by (simp add: price_vars_margin_amount default_margin_percent)
  with cost have "0 \<le> v_computed_subtotal ?v"
    by (simp add: price_vars_computed_subtotal)
  moreover have "0 < v_minimum_price ?v"
    using rates by (simp add: price_vars_minimum_price)
  ultimately show sub: "0 \<le> v_subtotal ?v"
    by (simp add: price_vars_subtotal)
  then show "0 \<le> v_total ?v"
    by (simp add: price_vars_total default_tax)
qed

lemma float_of_int_fits: "\<bar>n\<bar> \<le> 10 ^ 300 \<Longrightarrow> \<not> float_of_int_overflows n"
proof -
  have "(10::int) ^ 300 < 2 ^ 1024 - 2 ^ 970" by simp
  then show "\<bar>n\<bar> \<le> 10 ^ 300 \<Longrightarrow> \<not> float_of_int_overflows n"
    unfolding float_of_int_overflows_def by linarith
qed

lemma calculate_price_default_returns:
  assumes "0 \<le> quantity_of s" and "quantity_of s \<le> 10 ^ 300"
  shows "\<exists>est. calculate_price get_default_pricing_config s = Inr est"
proof -
  obtain pc where pc: "product_config_of get_default_pricing_config s = Inr pc"
    using default_product_config_exists by blast
  have "\<exists>est. build_response (price_vars get_default_pricing_config pc s) = Inr est"
    using default_price_vars_nonneg [OF pc assms(1)]
    by (intro build_response_returns) (simp_all add: default_margin_percent)
  moreover from assms have "\<not> float_of_int_overflows (quantity_of s)"
    by (intro float_of_int_fits) simp
  ultimately show ?thesis using pc by (simp add: calculate_price_def)
qed

lemma calculate_price_Inr:
  assumes "calculate_price c s = Inr est"
  obtains pc where "product_config_of c s = Inr pc" "build_response (price_vars c pc s) = Inr est"
  using assms by (auto simp: calculate_price_def split: sum.splits if_splits)

lemma calculate_price_default_quantity:
  assumes "calculate_price get_default_pricing_config s = Inr est"
  shows "0 \<le> quantity_of s"
proof (rule ccontr)
  assume "\<not> 0 \<le> quantity_of s"
  then have neg: "quantity_of s \<le> - 1" by simp
  from assms obtain pc where pc: "product_config_of get_default_pricing_config s = Inr pc"
    and b: "build_response (price_vars get_default_pricing_config pc s) = Inr est"
    by (rule calculate_price_Inr)
  have r: "1 / 50 \<le> material_per_unit pc" using default_product_config [OF pc] by simp
  from neg have x: "(of_int (quantity_of s) :: rat) \<le> - 1"
    by (metis of_int_le_iff of_int_minus of_int_1)
  then have "material_per_unit pc * of_int (quantity_of s) \<le> (1 / 50) * of_int (quantity_of s)"
    using r by (intro mult_right_mono_neg) simp_all
  also have "\<dots> \<le> - (1 / 100)" using x by simp
  finally have "v_material_cost (price_vars get_default_pricing_config pc s) \<le> - (1 / 100)"
    by (simp add: price_vars_material_cost)
  then have "round2 (v_material_cost (price_vars get_default_pricing_config pc s)) < 0"
    by (rule round2_negative)
  with build_response_Inr_nonneg(1) [OF b] show False by simp
qed

section \<open>Sequencing of discount, rush fee, margin, floor and tax\<close>

lemma calculate_price_Inr_vars:
  assumes "product_config_of c s = Inr pc" and "calculate_price c s = Inr est"
  shows "build_response (price_vars c pc s) = Inr est"
  using assms by (simp add: calculate_price_def split: if_splits)

text \<open>
  C2. The rush branch is entered exactly when the rush flag is set or the turnaround is
  present and at most 2. In the rush branch the rush fee is (pre-discount total +
  quantity discount) times (rush multiplier - 1); outside the branch it is 0. The quantity discount is computed
  first, from the pre-discount total and the discount rate alone; the margin is the
  margin fraction of the sum of pre-discount total, discount and rush fee; the minimum
  price is enforced on that sum plus the margin, and the tax is computed on the result.
\<close>

theorem rush_fee_on_discounted_base:
  "(rush_triggered s \<longleftrightarrow>
      is_rush s = Some True \<or> (\<exists>d. turnaround_days s = Some d \<and> d \<le> 2))
   \<and> (rush_triggered s \<longrightarrow>
      v_rush_multiplier (price_vars c pc s) = Some (fst (rush_selection c s))
      \<and> v_rush_fee (price_vars c pc s) =
          (v_pre_discount_total (price_vars c pc s) + v_quantity_discount (price_vars c pc s))
            * (fst (rush_selection c s) - 1))
   \<and> (\<not> rush_triggered s \<longrightarrow>
        v_rush_multiplier (price_vars c pc s) = None \<and> v_rush_fee (price_vars c pc s) = 0)
   \<and> v_quantity_discount (price_vars c pc s) =
       - (v_pre_discount_total (price_vars c pc s) * v_discount_rate (price_vars c pc s))
   \<and> v_cost_subtotal (price_vars c pc s) =
       v_pre_discount_total (price_vars c pc s) + v_quantity_discount (price_vars c pc s)
         + v_rush_fee (price_vars c pc s)
   \<and> v_margin_amount (price_vars c pc s) =
       v_cost_subtotal (price_vars c pc s) * v_margin_percent (price_vars c pc s)
   \<and> v_margin_percent (price_vars c pc s) =
       (case cfg_margin_percent c of None \<Rightarrow> 3 / 10 | Some m \<Rightarrow> m)
   \<and> v_computed_subtotal (price_vars c pc s) =
       v_cost_subtotal (price_vars c pc s) + v_margin_amount (price_vars c pc s)
   \<and> v_subtotal (price_vars c pc s) =
       max (v_computed_subtotal (price_vars c pc s)) (v_minimum_price (price_vars c pc s))
   \<and> v_tax (price_vars c pc s) =
       v_subtotal (price_vars c pc s) * (case cfg_tax_rate c of None \<Rightarrow> 0 | Some t \<Rightarrow> t)
   \<and> v_total (price_vars c pc s) = v_subtotal (price_vars c pc s) + v_tax (price_vars c pc s)"
proof -
  let ?v = "price_vars c pc s"
  have qd: "v_quantity_discount ?v = - (v_pre_discount_total ?v * v_discount_rate ?v)"
    by (simp add: price_vars_quantity_discount)
  have rush: "rush_triggered s \<Longrightarrow>
      v_rush_fee ?v = (v_pre_discount_total ?v + v_quantity_discount ?v) * (fst (rush_selection c s) - 1)"
    by (simp add: price_vars_rush_fee price_vars_rush_multiplier)
  have norush: "\<not> rush_triggered s \<Longrightarrow> v_rush_fee ?v = 0"
    by (simp add: price_vars_rush_fee price_vars_rush_multiplier)
  have sub: "v_subtotal ?v = max (v_computed_subtotal ?v) (v_minimum_price ?v)"
    by (simp add: price_vars_subtotal max_def not_less)
  have tax: "v_tax ?v = v_subtotal ?v * (case cfg_tax_rate c of None \<Rightarrow> 0 | Some t \<Rightarrow> t)"
    by (simp add: price_vars_tax)
  have trig: "rush_triggered s \<longleftrightarrow>
      is_rush s = Some True \<or> (\<exists>d. turnaround_days s = Some d \<and> d \<le> 2)"
    by (simp add: rush_triggered_def split: option.splits)
  show ?thesis
    using trig qd rush norush sub tax
      price_vars_rush_multiplier [of c pc s] price_vars_cost_subtotal [of c pc s]
      price_vars_margin_amount [of c pc s] price_vars_margin_percent [of c pc s]
      price_vars_computed_subtotal [of c pc s] price_vars_total [of c pc s]
    by simp
qed

theorem rush_fee_on_discounted_base_witness:
  "rush_triggered (minimal_specs\<lparr>quantity := Some 500, is_rush := Some True\<rparr>)
   \<and> rush_selection get_default_pricing_config
         (minimal_specs\<lparr>quantity := Some 500, is_rush := Some True\<rparr>) = (1.5, ''Rush'')
   \<and> v_pre_discount_total (price_vars get_default_pricing_config
         \<lparr>material_per_unit = 0.02, print_per_unit = 0.04, finishing_per_unit = 0.02,
          minimum_quantity = 100, minimum_price = Some 29.99, default_size = ''3.5x2''\<rparr>
         (minimal_specs\<lparr>quantity := Some 500, is_rush := Some True\<rparr>)) = 182
   \<and> v_quantity_discount (price_vars get_default_pricing_config
         \<lparr>material_per_unit = 0.02, print_per_unit = 0.04, finishing_per_unit = 0.02,
          minimum_quantity = 100, minimum_price = Some 29.99, default_size = ''3.5x2''\<rparr>
         (minimal_specs\<lparr>quantity := Some 500, is_rush := Some True\<rparr>)) = - 18.2
   \<and> v_rush_fee (price_vars get_default_pricing_config
         \<lparr>material_per_unit = 0.02, print_per_unit = 0.04, finishing_per_unit = 0.02,
          minimum_quantity = 100, minimum_price = Some 29.99, default_size = ''3.5x2''\<rparr>
         (minimal_specs\<lparr>quantity := Some 500, is_rush := Some True\<rparr>)) = (182 + - 18.2) * (1.5 - 1)
   \<and> calculate_price get_default_pricing_config
         (minimal_specs\<lparr>quantity := Some 500, is_rush := Some True\<rparr>) =
       Inr \<lparr>print_method = Offset,
            print_method_reason = ''Offset printing selected: quantity (500) at or above 500 threshold. Lower per-unit cost at scale, requires plate setup.'',
            breakdown = \<lparr>material_cost = 10, print_cost = 12, setup_cost = 150,
                         finishing_cost = 10, option_costs = [], rush_fee = 81.9,
                         quantity_discount = - 18.2, margin_amount = 73.71,
                         margin_percent = 30\<rparr>,
            subtotal = 319.41, tax = 0, total = 319.41, currency = ''USD'',
            estimate_notes = [''10% volume discount applied'',
                              ''Rush rush fee applied (50% surcharge)'']\<rparr>
   \<and> rush_triggered (minimal_specs\<lparr>turnaround_days := Some 2\<rparr>)
   \<and> map_sum id (\<lambda>e. (rush_fee (breakdown e), estimate_notes e))
         (calculate_price get_default_pricing_config
            (minimal_specs\<lparr>turnaround_days := Some 2\<rparr>)) =
       Inr (5.75, [''2-day rush fee applied (25% surcharge)''])
   \<and> rush_triggered (minimal_specs\<lparr>turnaround_days := Some 3\<rparr>) = False
   \<and> v_rush_fee (price_vars get_default_pricing_config
         \<lparr>material_per_unit = 0.02, print_per_unit = 0.04, finishing_per_unit = 0.02,
          minimum_quantity = 100, minimum_price = Some 29.99, default_size = ''3.5x2''\<rparr>
         (minimal_specs\<lparr>turnaround_days := Some 3\<rparr>)) = 0
   \<and> map_sum id (\<lambda>e. (rush_fee (breakdown e), estimate_notes e))
         (calculate_price get_default_pricing_config
            (minimal_specs\<lparr>turnaround_days := Some 3\<rparr>)) =
       Inr (0, [''Minimum order price of $29.99 applied''])"
proof -
  let ?c = get_default_pricing_config
  let ?s = "minimal_specs\<lparr>quantity := Some 500, is_rush := Some True\<rparr>"
  let ?s2 = "minimal_specs\<lparr>turnaround_days := Some 2\<rparr>"
  let ?s3 = "minimal_specs\<lparr>turnaround_days := Some 3\<rparr>"
  let ?pc = "\<lparr>material_per_unit = 0.02, print_per_unit = 0.04, finishing_per_unit = 0.02,
            minimum_quantity = 100, minimum_price = Some 29.99, default_size = ''3.5x2''\<rparr>"
  have r: "rush_triggered ?s" by code_simp
  have sel: "rush_selection ?c ?s = (1.5, ''Rush'')" by code_simp
  have v: "v_pre_discount_total (price_vars ?c ?pc ?s) = 182"
    "v_quantity_discount (price_vars ?c ?pc ?s) = - 18.2"
    by code_simp+
  have e: "calculate_price ?c ?s =
       Inr \<lparr>print_method = Offset,
            print_method_reason = ''Offset printing selected: quantity (500) at or above 500 threshold. Lower per-unit cost at scale, requires plate setup.'',
            breakdown = \<lparr>material_cost = 10, print_cost = 12, setup_cost = 150,
                         finishing_cost = 10, option_costs = [], rush_fee = 81.9,
                         quantity_discount = - 18.2, margin_amount = 73.71,
                         margin_percent = 30\<rparr>,
            subtotal = 319.41, tax = 0, total = 319.41, currency = ''USD'',
            estimate_notes = [''10% volume discount applied'',
                              ''Rush rush fee applied (50% surcharge)'']\<rparr>"
    by code_simp
  from rush_fee_on_discounted_base [of ?s ?c ?pc] r
  have "v_rush_fee (price_vars ?c ?pc ?s) =
          (v_pre_discount_total (price_vars ?c ?pc ?s) + v_quantity_discount (price_vars ?c ?pc ?s))
            * (fst (rush_selection ?c ?s) - 1)"
    by blast
  then have f: "v_rush_fee (price_vars ?c ?pc ?s) = (182 + - 18.2) * (1.5 - 1)"
    unfolding v sel by simp
  have t2: "turnaround_days ?s2 = Some 2" and t3: "turnaround_days ?s3 = Some 3"
    and i3: "is_rush ?s3 = Some False"
    by (simp_all add: minimal_specs_def)
  from rush_fee_on_discounted_base [of ?s2 ?c ?pc] t2
  have r2: "rush_triggered ?s2" by simp
  from rush_fee_on_discounted_base [of ?s3 ?c ?pc] t3 i3
  have r3: "rush_triggered ?s3 = False" "v_rush_fee (price_vars ?c ?pc ?s3) = 0"
    by simp_all
  have e2: "map_sum id (\<lambda>e. (rush_fee (breakdown e), estimate_notes e)) (calculate_price ?c ?s2) =
       Inr (5.75, [''2-day rush fee applied (25% surcharge)''])"
    by code_simp
  have e3: "map_sum id (\<lambda>e. (rush_fee (breakdown e), estimate_notes e)) (calculate_price ?c ?s3) =
       Inr (0, [''Minimum order price of $29.99 applied''])"
    by code_simp
  from r sel v e f r2 r3 e2 e3 show ?thesis by simp
qed

section \<open>Quantity discount\<close>

text \<open>
  C3. The discount tier is the first one, in descending order of minimum quantity, whose
  minimum is at most the order quantity: when a tier is selected it is a configured tier
  that the quantity reaches and no configured tier that the quantity reaches has a larger
  minimum, and among the configured tiers with that minimum it is the one listed first
  (the sort is stable); no tier is selected exactly when the quantity is below every
  minimum. The
  discount rate is the fraction of that single tier (0 without a tier) and the discount
  amount is minus the pre-discount total times the rate. Under the embedded default
  configuration the rate is 0 below 250, 0.05 from 250, 0.10 from 500, 0.15 from 1000,
  0.20 from 5000 and 0.25 from 10000.
\<close>

theorem quantity_discount_tier_selection:
  "(find_discount_tier c q = None \<longleftrightarrow>
      (\<forall>t \<in> set (or_empty (cfg_quantity_discounts c)). q < min_quantity t))
   \<and> (\<forall>t. find_discount_tier c q = Some t \<longrightarrow>
         t \<in> set (or_empty (cfg_quantity_discounts c)) \<and> min_quantity t \<le> q
         \<and> (\<forall>t' \<in> set (or_empty (cfg_quantity_discounts c)).
               min_quantity t' \<le> q \<longrightarrow> min_quantity t' \<le> min_quantity t)
         \<and> find (\<lambda>t'. min_quantity t' = min_quantity t) (or_empty (cfg_quantity_discounts c)) =
             Some t)
   \<and> find_discount_tier c q =
       find (\<lambda>tier. min_quantity tier \<le> q)
         (sorted_desc min_quantity (or_empty (cfg_quantity_discounts c)))
   \<and> sorted_wrt (\<lambda>a b. min_quantity b \<le> min_quantity a)
         (sorted_desc min_quantity (or_empty (cfg_quantity_discounts c)))
   \<and> v_discount_rate (price_vars c pc s) =
       (case find_discount_tier c (quantity_of s) of None \<Rightarrow> 0 | Some tier \<Rightarrow> discount tier)
   \<and> v_quantity_discount (price_vars c pc s) =
       - (v_pre_discount_total (price_vars c pc s) * v_discount_rate (price_vars c pc s))
   \<and> v_discount_rate (price_vars get_default_pricing_config pc s) =
       (if quantity_of s < 250 then 0 else if quantity_of s < 500 then 0.05
        else if quantity_of s < 1000 then 0.10 else if quantity_of s < 5000 then 0.15
        else if quantity_of s < 10000 then 0.20 else 0.25)"
proof -
  have a: "\<forall>t. find_discount_tier c q = Some t \<longrightarrow>
         t \<in> set (or_empty (cfg_quantity_discounts c)) \<and> min_quantity t \<le> q
         \<and> (\<forall>t' \<in> set (or_empty (cfg_quantity_discounts c)).
               min_quantity t' \<le> q \<longrightarrow> min_quantity t' \<le> min_quantity t)
         \<and> find (\<lambda>t'. min_quantity t' = min_quantity t) (or_empty (cfg_quantity_discounts c)) =
             Some t"
    using find_discount_tier_Some [of c q] find_discount_tier_first_listed [of c q] by blast
  have d: "v_discount_rate (price_vars get_default_pricing_config pc s) =
       (if quantity_of s < 250 then 0 else if quantity_of s < 500 then 0.05
        else if quantity_of s < 1000 then 0.10 else if quantity_of s < 5000 then 0.15
        else if quantity_of s < 10000 then 0.20 else 0.25)"
    by (simp add: price_vars_discount_rate default_discount_rate)
  show ?thesis
    using a d find_discount_tier_None [of c q] sorted_desc_descending [of min_quantity]
      price_vars_discount_rate [of c pc s] price_vars_quantity_discount [of c pc s]
    by (simp add: find_discount_tier_def)
qed

theorem quantity_discount_tier_selection_witness:
  "find_discount_tier get_default_pricing_config 250 = Some \<lparr>min_quantity = 250, discount = 0.05\<rparr>
   \<and> find_discount_tier get_default_pricing_config 249 = None
   \<and> find_discount_tier
         (get_default_pricing_config
            \<lparr>cfg_quantity_discounts :=
               Some [\<lparr>min_quantity = 100, discount = 0.01\<rparr>, \<lparr>min_quantity = 250, discount = 0.05\<rparr>,
                     \<lparr>min_quantity = 250, discount = 0.07\<rparr>]\<rparr>) 300 =
       Some \<lparr>min_quantity = 250, discount = 0.05\<rparr>
   \<and> min_quantity \<lparr>min_quantity = 250, discount = 0.05\<rparr> \<le> 250
   \<and> v_discount_rate (price_vars get_default_pricing_config
         \<lparr>material_per_unit = 0.02, print_per_unit = 0.04, finishing_per_unit = 0.02,
          minimum_quantity = 100, minimum_price = Some 29.99, default_size = ''3.5x2''\<rparr>
         (minimal_specs\<lparr>quantity := Some 10000\<rparr>)) = 0.25
   \<and> v_quantity_discount (price_vars get_default_pricing_config
         \<lparr>material_per_unit = 0.02, print_per_unit = 0.04, finishing_per_unit = 0.02,
          minimum_quantity = 100, minimum_price = Some 29.99, default_size = ''3.5x2''\<rparr>
         (minimal_specs\<lparr>quantity := Some 250\<rparr>)) = - (35 * 0.05)
   \<and> map_sum id (quantity_discount \<circ> breakdown)
         (calculate_price get_default_pricing_config (minimal_specs\<lparr>quantity := Some 250\<rparr>)) =
       Inr (- 1.75)"
proof -
  let ?c = get_default_pricing_config
  let ?s = "minimal_specs\<lparr>quantity := Some 250\<rparr>"
  let ?pc = "\<lparr>material_per_unit = 0.02, print_per_unit = 0.04, finishing_per_unit = 0.02,
            minimum_quantity = 100, minimum_price = Some 29.99, default_size = ''3.5x2''\<rparr>"
  have f: "find_discount_tier ?c 250 = Some \<lparr>min_quantity = 250, discount = 0.05\<rparr>"
    "find_discount_tier ?c 249 = None"
    "find_discount_tier
         (get_default_pricing_config
            \<lparr>cfg_quantity_discounts :=
               Some [\<lparr>min_quantity = 100, discount = 0.01\<rparr>, \<lparr>min_quantity = 250, discount = 0.05\<rparr>,
                     \<lparr>min_quantity = 250, discount = 0.07\<rparr>]\<rparr>) 300 =
       Some \<lparr>min_quantity = 250, discount = 0.05\<rparr>"
    by code_simp+
  have v: "v_pre_discount_total (price_vars ?c ?pc ?s) = 35" by code_simp
  have q: "quantity_of (minimal_specs\<lparr>quantity := Some 10000\<rparr>) = 10000"
    "quantity_of ?s = 250" by code_simp+
  have e: "map_sum id (quantity_discount \<circ> breakdown) (calculate_price ?c ?s) = Inr (- 1.75)"
    by code_simp
  from quantity_discount_tier_selection [of ?c 250 ?pc ?s] f q v
  have "v_quantity_discount (price_vars ?c ?pc ?s) = - (35 * 0.05)"
    "min_quantity \<lparr>min_quantity = 250, discount = 0.05\<rparr> \<le> (250::int)"
    by simp_all
  with e f quantity_discount_tier_selection [of ?c 250 ?pc "minimal_specs\<lparr>quantity := Some 10000\<rparr>"] q
  show ?thesis by simp
qed

section \<open>Minimum price floor\<close>

lemma business_cards_config:
  "product_config_of get_default_pricing_config
     (s\<lparr>product_type := Some ''business_cards'', quantity := Some 1\<rparr>) =
   Inr \<lparr>material_per_unit = 0.02, print_per_unit = 0.04, finishing_per_unit = 0.02,
        minimum_quantity = 100, minimum_price = Some 29.99, default_size = ''3.5x2''\<rparr>"
  by (simp add: product_config_of_def get_default_pricing_config_def dict_get_def)

lemma str_nat_hd: "str_nat n \<noteq> [] \<and> hd (str_nat n) \<in> set ''0123456789''"
proof (induction n rule: str_nat.induct)
  case (1 n)
  show ?case
  proof (cases "n < 10")
    case True
    then have "str_nat n = [digit_char n]" by (simp add: str_nat.simps)
    moreover have "digit_char n \<in> set ''0123456789''"
      unfolding digit_char_def using True by (intro nth_mem) simp
    ultimately show ?thesis by simp
  next
    case False
    then have "str_nat n = str_nat (n div 10) @ [digit_char (n mod 10)]"
      by (subst str_nat.simps) simp
    with 1 False show ?thesis by simp
  qed
qed

lemma str_int_hd: "hd (str_int i @ rest) \<noteq> CHR ''M''"
proof (cases "i < 0")
  case True
  then show ?thesis by (simp add: str_int_def)
next
  case False
  with str_nat_hd [of "nat i"] show ?thesis by (auto simp: str_int_def)
qed

lemma option_loop_notes_hd:
  "\<forall>n \<in> set ns. hd n \<noteq> CHR ''M'' \<Longrightarrow>
     \<forall>n \<in> set (snd (option_loop oc q opts (costs, ns))). hd n \<noteq> CHR ''M''"
proof (induction opts arbitrary: costs ns)
  case Nil
  then show ?case by simp
next
  case (Cons opt rest)
  show ?case
  proof (cases "map_of oc opt")
    case None
    have "\<forall>n \<in> set (ns @ [''Option '' @ apos @ opt @ apos @ '' not in pricing catalog'']). hd n \<noteq> CHR ''M''"
      using Cons.prems by simp
    from Cons.IH [OF this] None show ?thesis by simp
  next
    case (Some cfg)
    with Cons.IH [OF Cons.prems] show ?thesis by simp
  qed
qed

lemma price_vars_notes_shape:
  "v_estimate_notes (price_vars c pc s) =
     snd (option_loop (or_empty (cfg_options c)) (quantity_of s) (options s)
            ([], snd (apply_modifiers c s)))
     @ (case find_discount_tier c (quantity_of s) of None \<Rightarrow> []
        | Some tier \<Rightarrow> [str_int (py_int (discount tier * 100)) @ ''% volume discount applied''])
     @ (if rush_triggered s
        then [snd (rush_selection c s) @ '' rush fee applied (''
                @ str_int (py_int ((fst (rush_selection c s) - 1) * 100)) @ ''% surcharge)'']
        else [])
     @ (if v_computed_subtotal (price_vars c pc s) < v_minimum_price (price_vars c pc s)
        then [''Minimum order price of $'' @ fmt_2f (v_minimum_price (price_vars c pc s)) @ '' applied'']
        else [])"
  by (simp add: price_vars_def Let_def split_def split: option.splits)

lemma rush_selection_label:
  "snd (rush_selection c s) \<in> {''Same-day'', ''Next-day'', ''2-day'', ''Rush''}"
  by (simp add: rush_selection_def Let_def)

lemma price_vars_notes_no_minimum:
  assumes "\<not> v_computed_subtotal (price_vars c pc s) < v_minimum_price (price_vars c pc s)"
    and "n \<in> set (v_estimate_notes (price_vars c pc s))"
  shows "hd n \<noteq> CHR ''M''"
proof -
  have m: "\<forall>n \<in> set (snd (apply_modifiers c s)). hd n \<noteq> CHR ''M''"
    by (simp add: apply_modifiers_def Let_def split_def)
  note o = option_loop_notes_hd [OF m, of "or_empty (cfg_options c)" "quantity_of s" "options s" "[]"]
  have r: "hd (snd (rush_selection c s) @ rest) \<noteq> CHR ''M''" for rest
    using rush_selection_label [of c s] by auto
  from assms(2) show ?thesis
    unfolding price_vars_notes_shape [of c pc s]
    using assms(1) o r str_int_hd
    by (auto split: option.splits if_splits)
qed

lemma price_vars_subtotal_floor:
  "v_minimum_price (price_vars c pc s) \<le> v_subtotal (price_vars c pc s)"
  by (simp add: price_vars_subtotal)

text \<open>
  C4. The minimum price is enforced on the subtotal computed after the margin (cost
  subtotal plus margin amount): when that value is below the product's minimum price the
  subtotal becomes the minimum price itself and the note "Minimum order price of $... applied"
  is recorded; otherwise the subtotal is the computed value and no such note is recorded.
  The reported subtotal is therefore never below the minimum price rounded to two
  decimals, and the notes of the response are those collected during the calculation. Under the embedded default
  configuration every business_cards order of quantity 1 is priced, with a subtotal of at
  least 29.99.
\<close>

theorem minimum_price_floor:
  "v_computed_subtotal (price_vars c pc s) =
      v_cost_subtotal (price_vars c pc s) + v_margin_amount (price_vars c pc s)
   \<and> v_minimum_price (price_vars c pc s) = (case minimum_price pc of None \<Rightarrow> 25 | Some m \<Rightarrow> m)
   \<and> (v_computed_subtotal (price_vars c pc s) < v_minimum_price (price_vars c pc s) \<longrightarrow>
        v_subtotal (price_vars c pc s) = v_minimum_price (price_vars c pc s)
        \<and> (''Minimum order price of $'' @ fmt_2f (v_minimum_price (price_vars c pc s)) @ '' applied'')
            \<in> set (v_estimate_notes (price_vars c pc s)))
   \<and> (\<not> v_computed_subtotal (price_vars c pc s) < v_minimum_price (price_vars c pc s) \<longrightarrow>
        v_subtotal (price_vars c pc s) = v_computed_subtotal (price_vars c pc s)
        \<and> (''Minimum order price of $'' @ fmt_2f (v_minimum_price (price_vars c pc s)) @ '' applied'')
            \<notin> set (v_estimate_notes (price_vars c pc s)))
   \<and> (product_config_of c s = Inr pc \<and> calculate_price c s = Inr est \<longrightarrow>
        estimate_notes est = v_estimate_notes (price_vars c pc s)
        \<and> round2 (v_minimum_price (price_vars c pc s)) \<le> subtotal est)
   \<and> (\<exists>est'. calculate_price get_default_pricing_config
                 (s\<lparr>product_type := Some ''business_cards'', quantity := Some 1\<rparr>) = Inr est'
          \<and> 29.99 \<le> subtotal est')"
proof -
  let ?v = "price_vars c pc s"
  have out: "estimate_notes est = v_estimate_notes ?v
        \<and> round2 (v_minimum_price ?v) \<le> subtotal est"
    if "product_config_of c s = Inr pc" "calculate_price c s = Inr est"
    using build_response_Inr [OF calculate_price_Inr_vars [OF that]]
      round2_mono [OF price_vars_subtotal_floor [of c pc s]]
    by simp
  let ?s1 = "s\<lparr>product_type := Some ''business_cards'', quantity := Some 1\<rparr>"
  let ?bc = "\<lparr>material_per_unit = 0.02, print_per_unit = 0.04, finishing_per_unit = 0.02,
        minimum_quantity = 100, minimum_price = Some 29.99, default_size = ''3.5x2''\<rparr>"
  obtain est' where e: "calculate_price get_default_pricing_config ?s1 = Inr est'"
    using calculate_price_default_returns [of ?s1] by (auto simp: quantity_of_def)
  have "round2 (v_minimum_price (price_vars get_default_pricing_config ?bc ?s1)) \<le> subtotal est'"
    using build_response_Inr(10) [OF calculate_price_Inr_vars [OF business_cards_config e]]
      round2_mono [OF price_vars_subtotal_floor [of get_default_pricing_config ?bc ?s1]]
    by simp
  moreover have "round2 (v_minimum_price (price_vars get_default_pricing_config ?bc ?s1)) = 29.99"
    using round2_cents [of 2999] by (simp add: price_vars_minimum_price)
  ultimately have bc: "\<exists>est'. calculate_price get_default_pricing_config ?s1 = Inr est'
          \<and> 29.99 \<le> subtotal est'"
    using e by auto
  have below: "v_subtotal ?v = v_minimum_price ?v
        \<and> (''Minimum order price of $'' @ fmt_2f (v_minimum_price ?v) @ '' applied'')
            \<in> set (v_estimate_notes ?v)"
    if "v_computed_subtotal ?v < v_minimum_price ?v"
    using that price_vars_notes_minimum [OF that] price_vars_subtotal [of c pc s] by simp
  have above: "v_subtotal ?v = v_computed_subtotal ?v
        \<and> (''Minimum order price of $'' @ fmt_2f (v_minimum_price ?v) @ '' applied'')
            \<notin> set (v_estimate_notes ?v)"
    if "\<not> v_computed_subtotal ?v < v_minimum_price ?v"
    using that price_vars_subtotal [of c pc s] price_vars_notes_no_minimum [OF that]
    by fastforce
  show ?thesis
    using out bc below above
      price_vars_computed_subtotal [of c pc s] price_vars_minimum_price [of c pc s]
    by blast
qed

theorem minimum_price_floor_witness:
  "calculate_price get_default_pricing_config (minimal_specs\<lparr>quantity := Some 1\<rparr>) =
     Inr \<lparr>print_method = Digital,
          print_method_reason = ''Digital printing selected: quantity (1) below 500 threshold. Faster turnaround, no plate setup required.'',
          breakdown = \<lparr>material_cost = 0.02, print_cost = 0.04, setup_cost = 15,
                       finishing_cost = 0.02, option_costs = [], rush_fee = 0,
                       quantity_discount = 0, margin_amount = 4.52, margin_percent = 30\<rparr>,
          subtotal = 29.99, tax = 0, total = 29.99, currency = ''USD'',
          estimate_notes = [''Minimum order price of $29.99 applied'']\<rparr>
   \<and> v_computed_subtotal (price_vars get_default_pricing_config
         \<lparr>material_per_unit = 0.02, print_per_unit = 0.04, finishing_per_unit = 0.02,
          minimum_quantity = 100, minimum_price = Some 29.99, default_size = ''3.5x2''\<rparr>
         (minimal_specs\<lparr>quantity := Some 1\<rparr>)) = 19.604
   \<and> v_subtotal (price_vars get_default_pricing_config
         \<lparr>material_per_unit = 0.02, print_per_unit = 0.04, finishing_per_unit = 0.02,
          minimum_quantity = 100, minimum_price = Some 29.99, default_size = ''3.5x2''\<rparr>
         (minimal_specs\<lparr>quantity := Some 1\<rparr>)) = 29.99
   \<and> v_computed_subtotal (price_vars get_default_pricing_config
         \<lparr>material_per_unit = 0.02, print_per_unit = 0.04, finishing_per_unit = 0.02,
          minimum_quantity = 100, minimum_price = Some 29.99, default_size = ''3.5x2''\<rparr>
         (minimal_specs\<lparr>quantity := Some 200\<rparr>)) = 40.3
   \<and> v_subtotal (price_vars get_default_pricing_config
         \<lparr>material_per_unit = 0.02, print_per_unit = 0.04, finishing_per_unit = 0.02,
          minimum_quantity = 100, minimum_price = Some 29.99, default_size = ''3.5x2''\<rparr>
         (minimal_specs\<lparr>quantity := Some 200\<rparr>)) = 40.3
   \<and> calculate_price get_default_pricing_config (minimal_specs\<lparr>quantity := Some 200\<rparr>) =
     Inr \<lparr>print_method = Digital,
          print_method_reason = ''Digital printing selected: quantity (200) below 500 threshold. Faster turnaround, no plate setup required.'',
          breakdown = \<lparr>material_cost = 4, print_cost = 8, setup_cost = 15,
                       finishing_cost = 4, option_costs = [], rush_fee = 0,
                       quantity_discount = 0, margin_amount = 9.3, margin_percent = 30\<rparr>,
          subtotal = 40.3, tax = 0, total = 40.3, currency = ''USD'',
          estimate_notes = []\<rparr>"
proof -
  let ?c = get_default_pricing_config
  let ?s = "minimal_specs\<lparr>quantity := Some 1\<rparr>"
  let ?s2 = "minimal_specs\<lparr>quantity := Some 200\<rparr>"
  let ?pc = "\<lparr>material_per_unit = 0.02, print_per_unit = 0.04, finishing_per_unit = 0.02,
          minimum_quantity = 100, minimum_price = Some 29.99, default_size = ''3.5x2''\<rparr>"
  have e: "calculate_price ?c ?s =
     Inr \<lparr>print_method = Digital,
          print_method_reason = ''Digital printing selected: quantity (1) below 500 threshold. Faster turnaround, no plate setup required.'',
          breakdown = \<lparr>material_cost = 0.02, print_cost = 0.04, setup_cost = 15,
                       finishing_cost = 0.02, option_costs = [], rush_fee = 0,
                       quantity_discount = 0, margin_amount = 4.52, margin_percent = 30\<rparr>,
          subtotal = 29.99, tax = 0, total = 29.99, currency = ''USD'',
          estimate_notes = [''Minimum order price of $29.99 applied'']\<rparr>"
    by code_simp
  have v: "v_computed_subtotal (price_vars ?c ?pc ?s) = 19.604"
    "v_minimum_price (price_vars ?c ?pc ?s) = 29.99"
    by code_simp+
  then have lt: "v_computed_subtotal (price_vars ?c ?pc ?s) < v_minimum_price (price_vars ?c ?pc ?s)"
    by simp
  from minimum_price_floor [of ?c ?pc ?s] lt v
  have s1: "v_subtotal (price_vars ?c ?pc ?s) = 29.99" by simp
  have e2: "calculate_price ?c ?s2 =
     Inr \<lparr>print_method = Digital,
          print_method_reason = ''Digital printing selected: quantity (200) below 500 threshold. Faster turnaround, no plate setup required.'',
          breakdown = \<lparr>material_cost = 4, print_cost = 8, setup_cost = 15,
                       finishing_cost = 4, option_costs = [], rush_fee = 0,
                       quantity_discount = 0, margin_amount = 9.3, margin_percent = 30\<rparr>,
          subtotal = 40.3, tax = 0, total = 40.3, currency = ''USD'',
          estimate_notes = []\<rparr>"
    by code_simp
  have v2: "v_computed_subtotal (price_vars ?c ?pc ?s2) = 40.3"
    "v_minimum_price (price_vars ?c ?pc ?s2) = 29.99"
    by code_simp+
  then have ge: "\<not> v_computed_subtotal (price_vars ?c ?pc ?s2) < v_minimum_price (price_vars ?c ?pc ?s2)"
    by simp
  from minimum_price_floor [of ?c ?pc ?s2] ge v2
  have s2: "v_subtotal (price_vars ?c ?pc ?s2) = 40.3" by simp
  from e v s1 e2 v2 s2 show ?thesis by simp
qed

section \<open>Rush multiplier fallback\<close>

lemma rush_selection_fallback:
  assumes "turnaround_days s \<noteq> Some 0" "turnaround_days s \<noteq> Some 1" "turnaround_days s \<noteq> Some 2"
  shows "rush_selection c s = (dict_get (or_empty (cfg_rush_pricing c)) ''next_day'' (3 / 2), ''Rush'')"
  using assms by (simp add: rush_selection_def Let_def)

lemma default_next_day:
  "dict_get (or_empty (cfg_rush_pricing get_default_pricing_config)) ''next_day'' (3 / 2) = 3 / 2"
  by (simp add: get_default_pricing_config_def or_empty_def dict_get_def)

lemma surcharge_50: "str_int (py_int 50) = ''50''"
  by code_simp

lemma rush_fallback_cases:
  "rush_triggered s \<and> turnaround_days s \<noteq> Some 0 \<and> turnaround_days s \<noteq> Some 1
     \<and> turnaround_days s \<noteq> Some 2
   \<longleftrightarrow>
   (is_rush s = Some True
      \<and> (turnaround_days s = None \<or> (\<exists>d. turnaround_days s = Some d \<and> 2 < d)))
   \<or> (\<exists>d. turnaround_days s = Some d \<and> d < 0)"
proof (cases "turnaround_days s")
  case None
  then show ?thesis by (simp add: rush_triggered_def)
next
  case (Some d)
  have "(is_rush s = Some True \<or> d \<le> 2) \<and> d \<noteq> 0 \<and> d \<noteq> 1 \<and> d \<noteq> 2
        \<longleftrightarrow> (is_rush s = Some True \<and> 2 < d) \<or> d < 0"
    by linarith
  with Some show ?thesis by (simp add: rush_triggered_def)
qed

text \<open>
  C10. Whenever the rush flag is set and the turnaround is absent or greater than 2, or the
  turnaround is negative, the rush branch is entered with a turnaround other than 0, 1
  or 2 (and these are the only such cases): the multiplier is the configured next-day
  multiplier (1.5 when the key is absent), the rush type is "Rush" and the rush fee is
  the discounted base times (multiplier - 1). Under the embedded default configuration
  the multiplier is 1.5, the rush fee is half of the discounted base and the note of the
  response reads "Rush rush fee applied (50% surcharge)"; a rush-flagged order with a
  5-day turnaround is therefore surcharged at the next-day rate.
\<close>

theorem rush_fallback_next_day:
  assumes "(is_rush s = Some True
              \<and> (turnaround_days s = None \<or> (\<exists>d. turnaround_days s = Some d \<and> 2 < d)))
           \<or> (\<exists>d. turnaround_days s = Some d \<and> d < 0)"
  shows "rush_triggered s
    \<and> turnaround_days s \<noteq> Some 0 \<and> turnaround_days s \<noteq> Some 1
    \<and> turnaround_days s \<noteq> Some 2
    \<and> rush_selection c s =
        (dict_get (or_empty (cfg_rush_pricing c)) ''next_day'' (3 / 2), ''Rush'')
    \<and> v_rush_multiplier (price_vars c pc s) =
        Some (dict_get (or_empty (cfg_rush_pricing c)) ''next_day'' (3 / 2))
    \<and> v_rush_fee (price_vars c pc s) =
        (v_pre_discount_total (price_vars c pc s) + v_quantity_discount (price_vars c pc s))
          * (dict_get (or_empty (cfg_rush_pricing c)) ''next_day'' (3 / 2) - 1)
    \<and> dict_get (or_empty (cfg_rush_pricing get_default_pricing_config)) ''next_day'' (3 / 2) = 3 / 2
    \<and> v_rush_multiplier (price_vars get_default_pricing_config pc s) = Some (3 / 2)
    \<and> v_rush_fee (price_vars get_default_pricing_config pc s) =
        (v_pre_discount_total (price_vars get_default_pricing_config pc s)
           + v_quantity_discount (price_vars get_default_pricing_config pc s)) * (1 / 2)
    \<and> ''Rush rush fee applied (50% surcharge)''
         \<in> set (v_estimate_notes (price_vars get_default_pricing_config pc s))
    \<and> (calculate_price get_default_pricing_config s = Inr est \<longrightarrow>
           ''Rush rush fee applied (50% surcharge)'' \<in> set (estimate_notes est))"
proof -
  let ?d = get_default_pricing_config
  let ?v = "price_vars ?d pc s"
  from assms have trig: "rush_triggered s"
    and t: "turnaround_days s \<noteq> Some 0" "turnaround_days s \<noteq> Some 1"
      "turnaround_days s \<noteq> Some 2"
    using rush_fallback_cases [of s] by blast+
  note sel = rush_selection_fallback [OF t]
  have mult: "v_rush_multiplier (price_vars c pc s) =
        Some (dict_get (or_empty (cfg_rush_pricing c)) ''next_day'' (3 / 2))"
    using trig by (simp add: price_vars_rush_multiplier sel)
  have fee_c: "v_rush_fee (price_vars c pc s) =
        (v_pre_discount_total (price_vars c pc s) + v_quantity_discount (price_vars c pc s))
          * (dict_get (or_empty (cfg_rush_pricing c)) ''next_day'' (3 / 2) - 1)"
    by (simp add: price_vars_rush_fee mult)
  have mult_d: "v_rush_multiplier ?v = Some (3 / 2)"
    using trig by (simp add: price_vars_rush_multiplier sel default_next_day)
  have fee: "v_rush_fee ?v = (v_pre_discount_total ?v + v_quantity_discount ?v) * (1 / 2)"
    by (simp add: price_vars_rush_fee mult_d)
  have note_v: "''Rush rush fee applied (50% surcharge)'' \<in> set (v_estimate_notes (price_vars ?d pc' s))"
    for pc'
    using price_vars_notes_rush [OF trig, of ?d pc']
    by (simp add: sel default_next_day surcharge_50)
  have out: "''Rush rush fee applied (50% surcharge)'' \<in> set (estimate_notes est)"
    if "calculate_price ?d s = Inr est"
  proof -
    from that obtain pc' where b: "build_response (price_vars ?d pc' s) = Inr est"
      by (rule calculate_price_Inr)
    from build_response_Inr(15) [OF b] note_v [of pc'] show ?thesis by simp
  qed
  show ?thesis
    using trig t sel [of c] mult fee_c default_next_day mult_d fee note_v [of pc] out by blast
qed

theorem rush_fallback_next_day_witness:
  "is_rush (minimal_specs\<lparr>is_rush := Some True, turnaround_days := Some 5\<rparr>) = Some True
   \<and> turnaround_days (minimal_specs\<lparr>is_rush := Some True, turnaround_days := Some 5\<rparr>) = Some 5
   \<and> (2::int) < 5
   \<and> calculate_price get_default_pricing_config
         (minimal_specs\<lparr>is_rush := Some True, turnaround_days := Some 5\<rparr>) =
       Inr \<lparr>print_method = Digital,
            print_method_reason = ''Digital printing selected: quantity (100) below 500 threshold. Faster turnaround, no plate setup required.'',
            breakdown = \<lparr>material_cost = 2, print_cost = 4, setup_cost = 15,
                         finishing_cost = 2, option_costs = [], rush_fee = 11.5,
                         quantity_discount = 0, margin_amount = 10.35, margin_percent = 30\<rparr>,
            subtotal = 44.85, tax = 0, total = 44.85, currency = ''USD'',
            estimate_notes = [''Rush rush fee applied (50% surcharge)'']\<rparr>
   \<and> rush_triggered (minimal_specs\<lparr>is_rush := Some True, turnaround_days := Some 5\<rparr>)
   \<and> is_rush (minimal_specs\<lparr>is_rush := Some True\<rparr>) = Some True
   \<and> turnaround_days (minimal_specs\<lparr>is_rush := Some True\<rparr>) = None
   \<and> rush_triggered (minimal_specs\<lparr>is_rush := Some True\<rparr>)
   \<and> map_sum id (rush_fee \<circ> breakdown)
         (calculate_price get_default_pricing_config (minimal_specs\<lparr>is_rush := Some True\<rparr>)) =
       Inr 11.5
   \<and> turnaround_days (minimal_specs\<lparr>turnaround_days := Some (- 1)\<rparr>) = Some (- 1)
   \<and> (- 1 :: int) < 0
   \<and> rush_triggered (minimal_specs\<lparr>turnaround_days := Some (- 1)\<rparr>)
   \<and> map_sum id (rush_fee \<circ> breakdown)
         (calculate_price get_default_pricing_config
            (minimal_specs\<lparr>turnaround_days := Some (- 1)\<rparr>)) = Inr 11.5
   \<and> map_sum id estimate_notes
         (calculate_price get_default_pricing_config
            (minimal_specs\<lparr>turnaround_days := Some (- 1)\<rparr>)) =
       Inr [''Rush rush fee applied (50% surcharge)'']"
proof -
  let ?c = get_default_pricing_config
  let ?s5 = "minimal_specs\<lparr>is_rush := Some True, turnaround_days := Some 5\<rparr>"
  let ?sr = "minimal_specs\<lparr>is_rush := Some True\<rparr>"
  let ?sn = "minimal_specs\<lparr>turnaround_days := Some (- 1)\<rparr>"
  have h5: "(is_rush ?s5 = Some True
              \<and> (turnaround_days ?s5 = None \<or> (\<exists>d. turnaround_days ?s5 = Some d \<and> 2 < d)))
           \<or> (\<exists>d. turnaround_days ?s5 = Some d \<and> d < 0)"
    by simp
  have hr: "(is_rush ?sr = Some True
              \<and> (turnaround_days ?sr = None \<or> (\<exists>d. turnaround_days ?sr = Some d \<and> 2 < d)))
           \<or> (\<exists>d. turnaround_days ?sr = Some d \<and> d < 0)"
    by (simp add: minimal_specs_def)
  have hn: "(is_rush ?sn = Some True
              \<and> (turnaround_days ?sn = None \<or> (\<exists>d. turnaround_days ?sn = Some d \<and> 2 < d)))
           \<or> (\<exists>d. turnaround_days ?sn = Some d \<and> d < 0)"
    by simp
  have e5: "calculate_price ?c ?s5 =
       Inr \<lparr>print_method = Digital,
            print_method_reason = ''Digital printing selected: quantity (100) below 500 threshold. Faster turnaround, no plate setup required.'',
            breakdown = \<lparr>material_cost = 2, print_cost = 4, setup_cost = 15,
                         finishing_cost = 2, option_costs = [], rush_fee = 11.5,
                         quantity_discount = 0, margin_amount = 10.35, margin_percent = 30\<rparr>,
            subtotal = 44.85, tax = 0, total = 44.85, currency = ''USD'',
            estimate_notes = [''Rush rush fee applied (50% surcharge)'']\<rparr>"
    by code_simp
  have er: "map_sum id (rush_fee \<circ> breakdown) (calculate_price ?c ?sr) = Inr 11.5"
    by code_simp
  have en: "map_sum id (rush_fee \<circ> breakdown) (calculate_price ?c ?sn) = Inr 11.5"
    "map_sum id estimate_notes (calculate_price ?c ?sn) =
       Inr [''Rush rush fee applied (50% surcharge)'']"
    by code_simp+
  from rush_fallback_next_day [OF h5] rush_fallback_next_day [OF hr] rush_fallback_next_day [OF hn]
  have "rush_triggered ?s5" "rush_triggered ?sr" "rush_triggered ?sn"
    by blast+
  with e5 er en show ?thesis by (simp add: minimal_specs_def)
qed

section \<open>Non-negativity and monotonicity under the default configuration\<close>

text \<open>
  C9. Under the embedded default configuration, every estimate that the pricing engine
  returns has a material cost, print cost, setup cost and finishing cost that are at least
  0, every option cost of its breakdown is at least 0, and its total is at least 0.
\<close>

theorem default_costs_nonnegative:
  assumes "calculate_price get_default_pricing_config s = Inr est"
  shows "0 \<le> material_cost (breakdown est) \<and> 0 \<le> print_cost (breakdown est)
    \<and> 0 \<le> setup_cost (breakdown est) \<and> 0 \<le> finishing_cost (breakdown est)
    \<and> (\<forall>c \<in> snd ` set (option_costs (breakdown est)). 0 \<le> c)
    \<and> 0 \<le> total est"
proof -
  let ?d = get_default_pricing_config
  from assms obtain pc where pc: "product_config_of ?d s = Inr pc"
    and b: "build_response (price_vars ?d pc s) = Inr est"
    by (rule calculate_price_Inr)
  have q: "0 \<le> quantity_of s" by (rule calculate_price_default_quantity [OF assms])
  note nn = default_price_vars_nonneg [OF pc q]
  note out = build_response_Inr [OF b]
  have "\<forall>c \<in> snd ` set (option_costs (breakdown est)). 0 \<le> c"
    unfolding out(5) using nn(5) by (auto simp: round2_nonneg image_iff)
  with nn out show ?thesis by (simp add: round2_nonneg)
qed

theorem default_costs_nonnegative_witness:
  "calculate_price get_default_pricing_config
       (minimal_specs\<lparr>quantity := Some 500, options := [''foil_stamping'', ''die_cut'']\<rparr>) =
     Inr \<lparr>print_method = Offset,
          print_method_reason = ''Offset printing selected: quantity (500) at or above 500 threshold. Lower per-unit cost at scale, requires plate setup.'',
          breakdown = \<lparr>material_cost = 10, print_cost = 12, setup_cost = 150,
                       finishing_cost = 10, option_costs = [(''foil_stamping'', 40), (''die_cut'', 75)],
                       rush_fee = 0, quantity_discount = - 29.7, margin_amount = 80.19,
                       margin_percent = 30\<rparr>,
          subtotal = 347.49, tax = 0, total = 347.49, currency = ''USD'',
          estimate_notes = [''10% volume discount applied'']\<rparr>
   \<and> (0 :: rat) \<le> 40 \<and> (0 :: rat) \<le> 75"
proof -
  let ?s = "minimal_specs\<lparr>quantity := Some 500, options := [''foil_stamping'', ''die_cut'']\<rparr>"
  let ?e = "\<lparr>print_method = Offset,
          print_method_reason = ''Offset printing selected: quantity (500) at or above 500 threshold. Lower per-unit cost at scale, requires plate setup.'',
          breakdown = \<lparr>material_cost = 10, print_cost = 12, setup_cost = 150,
                       finishing_cost = 10, option_costs = [(''foil_stamping'', 40), (''die_cut'', 75)],
                       rush_fee = 0, quantity_discount = - 29.7, margin_amount = 80.19,
                       margin_percent = 30\<rparr>,
          subtotal = 347.49, tax = 0, total = 347.49, currency = ''USD'',
          estimate_notes = [''10% volume discount applied'']\<rparr>"
  have e: "calculate_price get_default_pricing_config ?s = Inr ?e"
    by code_simp
  from default_costs_nonnegative [OF e] e show ?thesis by simp
qed

lemma quantity_of_update:
  "quantity_of (s\<lparr>quantity := Some q\<rparr>) = (if q = 0 then 1 else q)"
  by (simp add: quantity_of_def)

lemma product_config_of_quantity:
  "product_config_of c (s\<lparr>quantity := x\<rparr>) = product_config_of c s"
  by (simp add: product_config_of_def)

lemma apply_modifiers_quantity:
  "apply_modifiers c (s\<lparr>quantity := x\<rparr>) = apply_modifiers c s"
  by (simp add: apply_modifiers_def)

lemma default_print_method:
  "fst (determine_print_method q get_default_pricing_config) = (if q < 500 then Digital else Offset)"
  by (simp add: determine_print_method_fst threshold_of_default)

text \<open>
  C1 (as amended). Under the embedded default configuration, with every field other than
  the quantity fixed, a larger quantity never has a smaller reported material cost or
  finishing cost, and never a smaller reported print cost when both quantities select the
  same print method, which is the case exactly when both are below 500 or both are at
  least 500.
\<close>

theorem default_costs_monotone_in_quantity:
  assumes "q1 \<le> q2"
    and "calculate_price get_default_pricing_config (s\<lparr>quantity := Some q1\<rparr>) = Inr e1"
    and "calculate_price get_default_pricing_config (s\<lparr>quantity := Some q2\<rparr>) = Inr e2"
  shows "material_cost (breakdown e1) \<le> material_cost (breakdown e2)
    \<and> finishing_cost (breakdown e1) \<le> finishing_cost (breakdown e2)
    \<and> (print_method e1 = print_method e2 \<longrightarrow>
          print_cost (breakdown e1) \<le> print_cost (breakdown e2))
    \<and> (print_method e1 = print_method e2 \<longleftrightarrow> (q1 < 500 \<longleftrightarrow> q2 < 500))"
proof -
  let ?d = get_default_pricing_config
  let ?s1 = "s\<lparr>quantity := Some q1\<rparr>" and ?s2 = "s\<lparr>quantity := Some q2\<rparr>"
  from assms(2) obtain pc where pc1: "product_config_of ?d ?s1 = Inr pc"
    and b1: "build_response (price_vars ?d pc ?s1) = Inr e1"
    by (rule calculate_price_Inr)
  from pc1 have pc2: "product_config_of ?d ?s2 = Inr pc"
    by (simp add: product_config_of_quantity)
  have b2: "build_response (price_vars ?d pc ?s2) = Inr e2"
    by (rule calculate_price_Inr_vars [OF pc2 assms(3)])
  have n1: "0 \<le> quantity_of ?s1" by (rule calculate_price_default_quantity [OF assms(2)])
  have n2: "0 \<le> quantity_of ?s2" by (rule calculate_price_default_quantity [OF assms(3)])
  from n1 n2 assms(1) have le: "quantity_of ?s1 \<le> quantity_of ?s2"
    by (simp add: quantity_of_update split: if_splits)
  then have ler: "(of_int (quantity_of ?s1) :: rat) \<le> of_int (quantity_of ?s2)" by simp
  note rates = default_product_config [OF pc1]
  have m: "0 < fst (apply_modifiers ?d s)" by (rule apply_modifiers_default_pos)
  have mat: "v_material_cost (price_vars ?d pc ?s1) \<le> v_material_cost (price_vars ?d pc ?s2)"
    unfolding price_vars_material_cost using rates ler by (intro mult_left_mono) simp_all
  have fin: "v_finishing_cost (price_vars ?d pc ?s1) \<le> v_finishing_cost (price_vars ?d pc ?s2)"
    unfolding price_vars_finishing_cost apply_modifiers_quantity using rates ler m
    by (intro mult_right_mono mult_left_mono) simp_all
  have pm: "print_method e1 = v_print_method (price_vars ?d pc ?s1)"
    "print_method e2 = v_print_method (price_vars ?d pc ?s2)"
    using build_response_Inr(13) [OF b1] build_response_Inr(13) [OF b2] by simp_all
  have same: "print_method e1 = print_method e2 \<longleftrightarrow> (q1 < 500 \<longleftrightarrow> q2 < 500)"
    unfolding pm price_vars_print_method default_print_method quantity_of_update by auto
  have prt: "v_print_cost (price_vars ?d pc ?s1) \<le> v_print_cost (price_vars ?d pc ?s2)"
    if "print_method e1 = print_method e2"
  proof -
    from that have eq: "v_print_method (price_vars ?d pc ?s1) = v_print_method (price_vars ?d pc ?s2)"
      by (simp add: pm)
    have mult: "0 \<le> dict_get (method_config_of ?d (v_print_method (price_vars ?d pc ?s2))) ''cost_multiplier'' 1"
      by (simp add: default_cost_multiplier split: print_method_t.splits)
    show ?thesis
      unfolding price_vars_print_cost apply_modifiers_quantity eq using rates ler m mult
      by (intro mult_right_mono mult_left_mono) simp_all
  qed
  show ?thesis
    using round2_mono [OF mat] round2_mono [OF fin] round2_mono [OF prt] same
      build_response_Inr(1,2,4) [OF b1] build_response_Inr(1,2,4) [OF b2]
    by simp
qed

theorem default_costs_monotone_in_quantity_witness:
  "(250::int) \<le> 450
   \<and> (\<exists>e1 e2. calculate_price get_default_pricing_config (minimal_specs\<lparr>quantity := Some 250\<rparr>) = Inr e1
        \<and> calculate_price get_default_pricing_config (minimal_specs\<lparr>quantity := Some 450\<rparr>) = Inr e2
        \<and> print_method e1 = print_method e2
        \<and> material_cost (breakdown e1) \<le> material_cost (breakdown e2)
        \<and> finishing_cost (breakdown e1) \<le> finishing_cost (breakdown e2)
        \<and> print_cost (breakdown e1) \<le> print_cost (breakdown e2))"
proof -
  let ?d = get_default_pricing_config
  have h: "(250::int) \<le> 450" by simp
  obtain e1 where e1: "calculate_price ?d (minimal_specs\<lparr>quantity := Some 250\<rparr>) = Inr e1"
    using calculate_price_default_returns [of "minimal_specs\<lparr>quantity := Some 250\<rparr>"]
    by (auto simp: quantity_of_def)
  obtain e2 where e2: "calculate_price ?d (minimal_specs\<lparr>quantity := Some 450\<rparr>) = Inr e2"
    using calculate_price_default_returns [of "minimal_specs\<lparr>quantity := Some 450\<rparr>"]
    by (auto simp: quantity_of_def)
  from default_costs_monotone_in_quantity [OF h e1 e2] e1 e2 show ?thesis by simp
qed

text \<open>
  C1 as stated fails for the print cost: 499 business cards are printed digitally for
  0.04 * 499 * 1.0 = 19.96, 500 business cards on the offset press for
  0.04 * 500 * 0.6 = 12.00.
\<close>

theorem monotone_print_cost_counterexample:
  "map_sum id (print_cost \<circ> breakdown)
       (calculate_price get_default_pricing_config (minimal_specs\<lparr>quantity := Some 499\<rparr>)) = Inr 19.96
   \<and> map_sum id (print_cost \<circ> breakdown)
       (calculate_price get_default_pricing_config (minimal_specs\<lparr>quantity := Some 500\<rparr>)) = Inr 12
   \<and> (12 :: rat) < 19.96"
  by code_simp

section \<open>Unknown product types and unknown options\<close>

lemma option_loop_filter_known:
  "fst (option_loop oc q (filter (\<lambda>opt. opt \<in> fst ` set oc) opts) (costs, ns)) =
   fst (option_loop oc q opts (costs, ns'))"
proof (induction opts arbitrary: costs ns ns')
  case Nil
  then show ?case by simp
next
  case (Cons opt rest)
  show ?case
  proof (cases "map_of oc opt")
    case None
    then have "opt \<notin> fst ` set oc" by (simp add: map_of_eq_None_iff)
    with None Cons.IH show ?thesis by simp
  next
    case (Some cfg)
    then have "opt \<in> fst ` set oc" by (metis map_of_eq_None_iff option.distinct(1))
    with Some Cons.IH show ?thesis by simp
  qed
qed

lemma option_loop_keys:
  "fst ` set (fst (option_loop oc q opts (costs, ns))) \<subseteq> fst ` set costs \<union> fst ` set oc"
proof (induction opts arbitrary: costs ns)
  case Nil
  then show ?case by simp
next
  case (Cons opt rest)
  show ?case
  proof (cases "map_of oc opt")
    case None
    with Cons.IH show ?thesis by simp
  next
    case (Some cfg)
    then have k: "opt \<in> fst ` set oc" by (metis map_of_eq_None_iff option.distinct(1))
    have "fst ` set (AList.update opt x costs) \<subseteq> fst ` set costs \<union> fst ` set oc" for x
      using k by (auto simp: dom_update)
    with Some Cons.IH show ?thesis
      by (simp split: if_splits) blast
  qed
qed

lemma option_loop_notes_grow:
  "set ns \<subseteq> set (snd (option_loop oc q opts (costs, ns)))"
proof (induction opts arbitrary: costs ns)
  case Nil
  then show ?case by simp
next
  case (Cons opt rest)
  show ?case
  proof (cases "map_of oc opt")
    case None
    with Cons.IH [of "ns @ [''Option '' @ apos @ opt @ apos @ '' not in pricing catalog'']" costs]
    show ?thesis by simp
  next
    case (Some cfg)
    with Cons.IH show ?thesis by simp
  qed
qed

lemma option_loop_unknown_note:
  "opt \<in> set opts \<Longrightarrow> opt \<notin> fst ` set oc \<Longrightarrow>
     (''Option '' @ apos @ opt @ apos @ '' not in pricing catalog'')
       \<in> set (snd (option_loop oc q opts (costs, ns)))"
proof (induction opts arbitrary: costs ns)
  case Nil
  then show ?case by simp
next
  case (Cons a rest)
  show ?case
  proof (cases "a = opt")
    case True
    with Cons.prems have "map_of oc a = None" by (simp add: map_of_eq_None_iff)
    then have "option_loop oc q (a # rest) (costs, ns) =
        option_loop oc q rest (costs, ns @ [''Option '' @ apos @ a @ apos @ '' not in pricing catalog''])"
      by simp
    with True option_loop_notes_grow [of "ns @ [''Option '' @ apos @ a @ apos @ '' not in pricing catalog'']" oc q rest costs]
    show ?thesis by auto
  next
    case False
    with Cons.prems have "opt \<in> set rest" by simp
    note ih = Cons.IH [OF this Cons.prems(2)]
    show ?thesis
    proof (cases "map_of oc a")
      case None
      with ih show ?thesis by simp
    next
      case (Some cfg)
      with ih show ?thesis by simp
    qed
  qed
qed

lemma price_vars_notes_options:
  "set (snd (option_loop (or_empty (cfg_options c)) (quantity_of s) (options s)
               ([], snd (apply_modifiers c s))))
     \<subseteq> set (v_estimate_notes (price_vars c pc s))"
  by (auto simp: price_vars_def Let_def split_def split: option.splits)

lemma price_vars_cong:
  assumes "quantity_of s' = quantity_of s" and "apply_modifiers c s' = apply_modifiers c s"
    and "options s' = options s" and "rush_triggered s' = rush_triggered s"
    and "rush_selection c s' = rush_selection c s"
  shows "price_vars c pc s' = price_vars c pc s"
  unfolding price_vars_def assms ..

lemma price_vars_product_type:
  "price_vars c pc (s\<lparr>product_type := x\<rparr>) = price_vars c pc s"
  by (rule price_vars_cong)
     (simp_all add: quantity_of_def apply_modifiers_def rush_triggered_def rush_selection_def
        Let_def)

lemma product_config_of_unknown:
  assumes "\<not> truthy (product_type s)
           \<or> the (product_type s) \<notin> fst ` set (or_empty (cfg_products c))"
  shows "product_config_of c s = product_config_of c (s\<lparr>product_type := Some ''default''\<rparr>)"
proof (cases "cfg_products c")
  case None
  then show ?thesis by (simp add: product_config_of_def)
next
  case (Some ps)
  show ?thesis
  proof (cases "map_of ps ''default''")
    case None
    with Some show ?thesis by (simp add: product_config_of_def)
  next
    case (Some dflt)
    from assms \<open>cfg_products c = Some ps\<close>
    have "\<not> truthy (product_type s) \<or> map_of ps (the (product_type s)) = None"
      by (simp add: or_empty_def map_of_eq_None_iff)
    with Some \<open>cfg_products c = Some ps\<close> show ?thesis
      by (auto simp: product_config_of_def dict_get_def truthy_def split: option.splits)
  qed
qed

lemma calculate_price_unknown_product:
  assumes "\<not> truthy (product_type s)
           \<or> the (product_type s) \<notin> fst ` set (or_empty (cfg_products c))"
  shows "calculate_price c s = calculate_price c (s\<lparr>product_type := Some ''default''\<rparr>)"
  by (simp add: calculate_price_def product_config_of_unknown [OF assms, symmetric]
        price_vars_product_type quantity_of_def split: sum.splits)

lemma product_config_of_options:
  "product_config_of c (s\<lparr>options := x\<rparr>) = product_config_of c s"
  by (simp add: product_config_of_def)

lemma build_response_numeric_cong:
  assumes "v_material_cost v' = v_material_cost v" and "v_print_cost v' = v_print_cost v"
    and "v_setup_cost v' = v_setup_cost v" and "v_finishing_cost v' = v_finishing_cost v"
    and "v_option_costs v' = v_option_costs v" and "v_rush_fee v' = v_rush_fee v"
    and "v_quantity_discount v' = v_quantity_discount v"
    and "v_margin_amount v' = v_margin_amount v" and "v_margin_percent v' = v_margin_percent v"
    and "v_subtotal v' = v_subtotal v" and "v_tax v' = v_tax v" and "v_total v' = v_total v"
  shows "map_sum id (\<lambda>e. (breakdown e, subtotal e, tax e, total e)) (build_response v') =
         map_sum id (\<lambda>e. (breakdown e, subtotal e, tax e, total e)) (build_response v)"
  by (simp add: build_response_def new_PricingBreakdown_def new_PriceEstimate_def assms
        split: sum.splits)

lemma price_vars_known_options:
  fixes c s pc
  defines "s' \<equiv> s\<lparr>options := filter (\<lambda>opt. opt \<in> fst ` set (or_empty (cfg_options c))) (options s)\<rparr>"
  shows "map_sum id (\<lambda>e. (breakdown e, subtotal e, tax e, total e))
           (build_response (price_vars c pc s')) =
         map_sum id (\<lambda>e. (breakdown e, subtotal e, tax e, total e))
           (build_response (price_vars c pc s))"
proof (rule build_response_numeric_cong)
  have q: "quantity_of s' = quantity_of s" by (simp add: s'_def quantity_of_def)
  have m: "apply_modifiers c s' = apply_modifiers c s" by (simp add: s'_def apply_modifiers_def)
  have r: "rush_triggered s' = rush_triggered s" "rush_selection c s' = rush_selection c s"
    by (simp_all add: s'_def rush_triggered_def rush_selection_def Let_def)
  have o: "fst (option_loop (or_empty (cfg_options c)) (quantity_of s) (options s')
                  ([], snd (apply_modifiers c s))) =
           fst (option_loop (or_empty (cfg_options c)) (quantity_of s) (options s)
                  ([], snd (apply_modifiers c s)))"
    unfolding s'_def by (simp add: option_loop_filter_known [where ns' = "snd (apply_modifiers c s)"])
  show mat: "v_material_cost (price_vars c pc s') = v_material_cost (price_vars c pc s)"
    by (simp add: price_vars_material_cost q)
  have pm: "v_print_method (price_vars c pc s') = v_print_method (price_vars c pc s)"
    by (simp add: price_vars_print_method q)
  show prt: "v_print_cost (price_vars c pc s') = v_print_cost (price_vars c pc s)"
    by (simp add: price_vars_print_cost pm q m)
  show stp: "v_setup_cost (price_vars c pc s') = v_setup_cost (price_vars c pc s)"
    by (simp add: price_vars_setup_cost pm)
  show fin: "v_finishing_cost (price_vars c pc s') = v_finishing_cost (price_vars c pc s)"
    by (simp add: price_vars_finishing_cost q m)
  show oc: "v_option_costs (price_vars c pc s') = v_option_costs (price_vars c pc s)"
    by (simp add: price_vars_option_costs q m o)
  have pre: "v_pre_discount_total (price_vars c pc s') = v_pre_discount_total (price_vars c pc s)"
    by (simp add: price_vars_pre_discount_total mat prt stp fin oc)
  have rate: "v_discount_rate (price_vars c pc s') = v_discount_rate (price_vars c pc s)"
    by (simp add: price_vars_discount_rate q)
  show qd: "v_quantity_discount (price_vars c pc s') = v_quantity_discount (price_vars c pc s)"
    by (simp add: price_vars_quantity_discount pre rate)
  have rm: "v_rush_multiplier (price_vars c pc s') = v_rush_multiplier (price_vars c pc s)"
    by (simp add: price_vars_rush_multiplier r)
  show rf: "v_rush_fee (price_vars c pc s') = v_rush_fee (price_vars c pc s)"
    by (simp add: price_vars_rush_fee rm pre qd split: option.splits)
  have cs: "v_cost_subtotal (price_vars c pc s') = v_cost_subtotal (price_vars c pc s)"
    by (simp add: price_vars_cost_subtotal pre qd rf)
  show mp: "v_margin_percent (price_vars c pc s') = v_margin_percent (price_vars c pc s)"
    by (simp add: price_vars_margin_percent)
  show ma: "v_margin_amount (price_vars c pc s') = v_margin_amount (price_vars c pc s)"
    by (simp add: price_vars_margin_amount cs mp)
  have comp: "v_computed_subtotal (price_vars c pc s') = v_computed_subtotal (price_vars c pc s)"
    by (simp add: price_vars_computed_subtotal cs ma)
  have minp: "v_minimum_price (price_vars c pc s') = v_minimum_price (price_vars c pc s)"
    by (simp add: price_vars_minimum_price)
  show sub: "v_subtotal (price_vars c pc s') = v_subtotal (price_vars c pc s)"
    by (simp add: price_vars_subtotal comp minp)
  show tx: "v_tax (price_vars c pc s') = v_tax (price_vars c pc s)"
    by (simp add: price_vars_tax sub)
  show "v_total (price_vars c pc s') = v_total (price_vars c pc s)"
    by (simp add: price_vars_total sub tx)
qed

lemma calculate_price_known_options:
  "map_sum id (\<lambda>e. (breakdown e, subtotal e, tax e, total e))
     (calculate_price c
        (s\<lparr>options := filter (\<lambda>opt. opt \<in> fst ` set (or_empty (cfg_options c))) (options s)\<rparr>)) =
   map_sum id (\<lambda>e. (breakdown e, subtotal e, tax e, total e)) (calculate_price c s)"
proof (cases "product_config_of c s")
  case (Inl e)
  then show ?thesis by (simp add: calculate_price_def product_config_of_options)
next
  case (Inr pc)
  then show ?thesis
    using price_vars_known_options [of c pc s]
    by (simp add: calculate_price_def product_config_of_options quantity_of_def)
qed

lemma calculate_price_unknown_option:
  assumes "calculate_price c s = Inr est" and "opt \<in> set (options s)"
    and "opt \<notin> fst ` set (or_empty (cfg_options c))"
  shows "opt \<notin> fst ` set (option_costs (breakdown est))"
    and "(''Option '' @ apos @ opt @ apos @ '' not in pricing catalog'') \<in> set (estimate_notes est)"
proof -
  from assms(1) obtain pc where pc: "product_config_of c s = Inr pc"
    and b: "build_response (price_vars c pc s) = Inr est"
    by (rule calculate_price_Inr)
  note out = build_response_Inr [OF b]
  have "fst ` set (v_option_costs (price_vars c pc s)) \<subseteq> fst ` set (or_empty (cfg_options c))"
    unfolding price_vars_option_costs
    using option_loop_keys [of "or_empty (cfg_options c)" "quantity_of s" "options s" "[]"]
    by simp
  moreover have "fst ` set (option_costs (breakdown est)) = fst ` set (v_option_costs (price_vars c pc s))"
    unfolding out(5) by (force simp: image_iff)
  ultimately show "opt \<notin> fst ` set (option_costs (breakdown est))"
    using assms(3) by blast
  show "(''Option '' @ apos @ opt @ apos @ '' not in pricing catalog'') \<in> set (estimate_notes est)"
    unfolding out(15)
    using option_loop_unknown_note [OF assms(2,3)] price_vars_notes_options [of c s pc]
    by blast
qed

text \<open>
  C8. For every specification that satisfies the quantity constraint of its schema and
  whose effective quantity is at most 10^300, the pricing engine under the embedded
  default configuration returns a complete estimate and raises nothing. For every
  configuration: a product type that is absent, empty or not in the products table is
  priced exactly as the product type "default"; an option that is not in the options
  table gets no entry among the option costs and the note "Option '...' not in pricing
  catalog"; and dropping the options that are not in the table changes neither the
  breakdown nor the subtotal, the tax or the total.
\<close>

theorem calculate_price_fail_open:
  assumes "quantity_constraint s" and "quantity_of s \<le> 10 ^ 300"
  shows "(\<exists>est. calculate_price get_default_pricing_config s = Inr est)
    \<and> (\<not> truthy (product_type s)
         \<or> the (product_type s) \<notin> fst ` set (or_empty (cfg_products c)) \<longrightarrow>
        calculate_price c s = calculate_price c (s\<lparr>product_type := Some ''default''\<rparr>))
    \<and> (\<forall>est opt. calculate_price c s = Inr est \<and> opt \<in> set (options s)
           \<and> opt \<notin> fst ` set (or_empty (cfg_options c)) \<longrightarrow>
         opt \<notin> fst ` set (option_costs (breakdown est))
         \<and> (''Option '' @ apos @ opt @ apos @ '' not in pricing catalog'')
              \<in> set (estimate_notes est))
    \<and> map_sum id (\<lambda>e. (breakdown e, subtotal e, tax e, total e))
          (calculate_price c
             (s\<lparr>options := filter (\<lambda>opt. opt \<in> fst ` set (or_empty (cfg_options c)))
                               (options s)\<rparr>)) =
        map_sum id (\<lambda>e. (breakdown e, subtotal e, tax e, total e)) (calculate_price c s)"
proof -
  from assms(1) have "0 \<le> quantity_of s"
    by (simp add: quantity_constraint_def quantity_of_def split: option.splits)
  then have ret: "\<exists>est. calculate_price get_default_pricing_config s = Inr est"
    using assms(2) by (rule calculate_price_default_returns)
  show ?thesis
    using ret calculate_price_unknown_product [of s c] calculate_price_unknown_option [of c s]
      calculate_price_known_options [of c s]
    by blast
qed

theorem calculate_price_fail_open_witness:
  "quantity_constraint
     (minimal_specs\<lparr>product_type := Some ''mystery_product'', quantity := Some 10,
                     options := [''glitter'', ''spot_uv'']\<rparr>)
   \<and> quantity_of
       (minimal_specs\<lparr>product_type := Some ''mystery_product'', quantity := Some 10,
                       options := [''glitter'', ''spot_uv'']\<rparr>) = 10
   \<and> calculate_price get_default_pricing_config
       (minimal_specs\<lparr>product_type := Some ''mystery_product'', quantity := Some 10,
                       options := [''glitter'', ''spot_uv'']\<rparr>) =
     Inr \<lparr>print_method = Digital,
          print_method_reason = ''Digital printing selected: quantity (10) below 500 threshold. Faster turnaround, no plate setup required.'',
          breakdown = \<lparr>material_cost = 0.5, print_cost = 1, setup_cost = 15,
                       finishing_cost = 0.3, option_costs = [(''spot_uv'', 25)],
                       rush_fee = 0, quantity_discount = 0, margin_amount = 12.54,
                       margin_percent = 30\<rparr>,
          subtotal = 54.34, tax = 0, total = 54.34, currency = ''USD'',
          estimate_notes = [''Option '' @ apos @ ''glitter'' @ apos @ '' not in pricing catalog'']\<rparr>
   \<and> calculate_price get_default_pricing_config
       (minimal_specs\<lparr>product_type := Some ''mystery_product'', quantity := Some 10,
                       options := [''glitter'', ''spot_uv'']\<rparr>) =
     calculate_price get_default_pricing_config
       (minimal_specs\<lparr>product_type := Some ''default'', quantity := Some 10,
                       options := [''glitter'', ''spot_uv'']\<rparr>)"
proof -
  let ?d = get_default_pricing_config
  let ?s = "minimal_specs\<lparr>product_type := Some ''mystery_product'', quantity := Some 10,
                           options := [''glitter'', ''spot_uv'']\<rparr>"
  have h: "quantity_constraint ?s" by code_simp
  have q: "quantity_of ?s = 10" by (simp add: quantity_of_def)
  then have b: "quantity_of ?s \<le> 10 ^ 300" by simp
  have e: "calculate_price ?d ?s =
     Inr \<lparr>print_method = Digital,
          print_method_reason = ''Digital printing selected: quantity (10) below 500 threshold. Faster turnaround, no plate setup required.'',
          breakdown = \<lparr>material_cost = 0.5, print_cost = 1, setup_cost = 15,
                       finishing_cost = 0.3, option_costs = [(''spot_uv'', 25)],
                       rush_fee = 0, quantity_discount = 0, margin_amount = 12.54,
                       margin_percent = 30\<rparr>,
          subtotal = 54.34, tax = 0, total = 54.34, currency = ''USD'',
          estimate_notes = [''Option '' @ apos @ ''glitter'' @ apos @ '' not in pricing catalog'']\<rparr>"
    by code_simp
  have u: "the (product_type ?s) \<notin> fst ` set (or_empty (cfg_products ?d))"
    by (simp add: get_default_pricing_config_def or_empty_def)
  from calculate_price_fail_open [OF h b, of ?d] u
  have "calculate_price ?d ?s = calculate_price ?d (?s\<lparr>product_type := Some ''default''\<rparr>)"
    by blast
  with h q e show ?thesis by (simp add: minimal_specs_def)
qed

text \<open>
  A quantity of 10^309 satisfies the schema (an integer, at least 1) and the product type
  and options are all known, yet the first product of a per-unit rate (a float) and the
  quantity (an int) raises OverflowError, since the quantity has no float: the engine
  does not return an estimate for every specification.
\<close>

theorem calculate_price_overflow_counterexample:
  "quantity_constraint (minimal_specs\<lparr>quantity := Some (10 ^ 309)\<rparr>)
   \<and> calculate_price get_default_pricing_config (minimal_specs\<lparr>quantity := Some (10 ^ 309)\<rparr>) =
       Inl OverflowError"
  by code_simp

end
